theory Spec2Isabelle
  imports Main "HOL-Library.Sublist"
begin

section \<open>Python values used by gitingest\<close>

text \<open>
  Python \<open>str\<close> values are modelled as \<open>string\<close> (lists of 8-bit characters), so the
  model covers text whose code points are below 256. \<open>Optional[str]\<close> is
  \<open>string option\<close>. A Python condition \<open>if x:\<close> on an optional string is true exactly
  when \<open>x\<close> is neither \<open>None\<close> nor the empty string.
\<close>

fun truthy :: "string option \<Rightarrow> bool" where
  "truthy None = False"
| "truthy (Some s) = (s \<noteq> [])"

text \<open>\<open>sep.join(parts)\<close>\<close>

fun py_join :: "string \<Rightarrow> string list \<Rightarrow> string" where
  "py_join sep [] = []"
| "py_join sep [x] = x"
| "py_join sep (x # y # ys) = x @ sep @ py_join sep (y # ys)"

text \<open>\<open>s.split(c)\<close> for a separator of one character: never the empty list.\<close>

fun py_split :: "char \<Rightarrow> string \<Rightarrow> string list" where
  "py_split c [] = [[]]"
| "py_split c (x # xs) =
     (if x = c then [] # py_split c xs
      else (case py_split c xs of
              [] \<Rightarrow> [[x]]
            | p # ps \<Rightarrow> (x # p) # ps))"

text \<open>
  \<open>s.split(sep, 1)\<close> for a non-empty separator: \<open>Some (before, after)\<close> at the first
  occurrence of \<open>sep\<close>, \<open>None\<close> when \<open>sep\<close> does not occur (Python then returns the
  one-element list \<open>[s]\<close>).
\<close>

fun split_once :: "string \<Rightarrow> string \<Rightarrow> (string \<times> string) option" where
  "split_once sep [] = (if sep = [] then Some ([], []) else None)"
| "split_once sep (c # cs) =
     (if prefix sep (c # cs) then Some ([], drop (length sep) (c # cs))
      else (case split_once sep cs of
              None \<Rightarrow> None
            | Some (a, b) \<Rightarrow> Some (c # a, b)))"

text \<open>\<open>sub in s\<close> on strings is \<^const>\<open>sublist\<close>; \<open>s.startswith(p)\<close> is \<^const>\<open>prefix\<close>;
  \<open>s.endswith(p)\<close> is \<^const>\<open>suffix\<close>.\<close>

text \<open>\<open>s.lstrip("/")\<close> removes every leading slash; \<open>s[:-1]\<close> is \<^const>\<open>butlast\<close>.\<close>

definition lstrip :: "char \<Rightarrow> string \<Rightarrow> string" where
  "lstrip c s = dropWhile (\<lambda>x. x = c) s"

text \<open>\<open>str.isspace\<close> on code points below 256, and \<open>s.strip()\<close>.\<close>

definition isspace :: "char \<Rightarrow> bool" where
  "isspace c = ((of_char c :: nat) \<in> {9, 10, 11, 12, 13, 28, 29, 30, 31, 32, 133, 160})"

definition strip :: "string \<Rightarrow> string" where
  "strip s = rev (dropWhile isspace (rev (dropWhile isspace s)))"

text \<open>\<open>s.lower()\<close> on the ASCII letters.\<close>

definition lower_char :: "char \<Rightarrow> char" where
  "lower_char c =
     (let n = (of_char c :: nat) in if 65 \<le> n \<and> n \<le> 90 then char_of (n + 32) else c)"

definition lower :: "string \<Rightarrow> string" where
  "lower s = map lower_char s"

text \<open>Decimal rendering of an integer, as an f-string does it.\<close>

fun show_nat :: "nat \<Rightarrow> string" where
  "show_nat n =
     (if n < 10 then [char_of (48 + n)]
      else show_nat (n div 10) @ [char_of (48 + n mod 10)])"

declare show_nat.simps [simp del]

definition show_int :: "int \<Rightarrow> string" where
  "show_int i = (if i < 0 then CHR ''-'' # show_nat (nat (- i)) else show_nat (nat i))"

text \<open>The exceptions the two modules raise, each with its message.\<close>

datatype error =
    ValueError string
  | RuntimeError string
  | OSError string
  | IndexError string
  | FileNotFoundError string
  | TypeError string

fun str_of_error :: "error \<Rightarrow> string" where
  "str_of_error (ValueError m) = m"
| "str_of_error (RuntimeError m) = m"
| "str_of_error (OSError m) = m"
| "str_of_error (IndexError m) = m"
| "str_of_error (FileNotFoundError m) = m"
| "str_of_error (TypeError m) = m"

text \<open>
  \<open>repr(s)\<close> of a string, for messages that quote one: single quotes unless the
  string holds a single quote and no double quote; backslash and the chosen quote are
  escaped by a backslash; tab, newline and carriage return are written as a backslash
  and \<open>t\<close>, \<open>n\<close>, \<open>r\<close>; every other character that is not printable (below 32, 127 to
  160, 173) is written as a backslash, \<open>x\<close> and two hexadecimal digits.
\<close>

definition hex_digit :: "nat \<Rightarrow> char" where
  "hex_digit n = (if n < 10 then char_of (48 + n) else char_of (87 + n))"

definition repr_char :: "char \<Rightarrow> char \<Rightarrow> string" where
  "repr_char quote c =
     (let n = (of_char c :: nat) in
      if c = quote \<or> c = CHR 0x5C then [CHR 0x5C, c]
      else if n = 9 then [CHR 0x5C, CHR ''t'']
      else if n = 10 then [CHR 0x5C, CHR ''n'']
      else if n = 13 then [CHR 0x5C, CHR ''r'']
      else if n < 32 \<or> (127 \<le> n \<and> n \<le> 160) \<or> n = 173
      then [CHR 0x5C, CHR ''x'', hex_digit (n div 16), hex_digit (n mod 16)]
      else [c])"

definition py_repr :: "string \<Rightarrow> string" where
  "py_repr s =
     (let quote = (if CHR 0x27 \<in> set s \<and> CHR 0x22 \<notin> set s then CHR 0x22 else CHR 0x27)
      in [quote] @ concat (map (repr_char quote) s) @ [quote])"


section \<open>cloning.py: the data model\<close>

record CloneConfig =
  url :: string
  local_path :: string
  commit :: "string option"
  branch :: "string option"
  subpath :: string
  blob :: bool
  github_token :: "string option"


section \<open>query\_parsing.py: ParsedQuery and the projection to CloneConfig\<close>

text \<open>
  The fields of the dataclass \<open>ParsedQuery\<close>, in the order of the source. The fields that
  \<open>CloneConfig\<close> has too carry the prefix \<open>q_\<close> here; \<open>id\<close> and \<open>type\<close> are \<open>q_id\<close> and
  \<open>q_type\<close>. \<open>local_path\<close> is the string \<open>str(self.local_path)\<close>.
\<close>

record ParsedQuery =
  user_name :: "string option"
  repo_name :: "string option"
  q_local_path :: string
  q_url :: "string option"
  slug :: string
  q_id :: string
  q_subpath :: string
  q_type :: "string option"
  q_branch :: "string option"
  q_commit :: "string option"
  max_file_size :: int
  ignore_patterns :: "string set option"
  include_patterns :: "string set option"
  pattern_type :: "string option"
  q_github_token :: "string option"

text \<open>\<open>ParsedQuery.extact_clone_config\<close> (the name is the source's).\<close>

definition extact_clone_config :: "ParsedQuery \<Rightarrow> error + CloneConfig" where
  "extact_clone_config self =
     (if \<not> truthy (q_url self) then Inl (ValueError ''The 'url' parameter is required.'')
      else Inr \<lparr> url = the (q_url self),
                 local_path = q_local_path self,
                 commit = q_commit self,
                 branch = q_branch self,
                 subpath = q_subpath self,
                 blob = (q_type self = Some ''blob''),
                 github_token = q_github_token self \<rparr>)"


section \<open>cloning.py: building the commands\<close>

text \<open>
  The local variables of \<open>clone_repo\<close>; \<open>authenticated_url\<close> gets the token as userinfo
  only for an https URL that contains \<open>github.com\<close>.
\<close>

definition partial_clone :: "CloneConfig \<Rightarrow> bool" where
  "partial_clone config = (subpath config \<noteq> ''/'')"

definition authenticated_url :: "CloneConfig \<Rightarrow> string" where
  "authenticated_url config =
     (if truthy (github_token config) \<and> sublist ''github.com'' (url config)
      then (if prefix ''https://'' (url config)
            then ''https://'' @ the (github_token config) @ ''@'' @ drop 8 (url config)
            else url config)
      else url config)"

text \<open>The URL handed to the existence probe and to \<open>git clone\<close>:
  \<open>authenticated_url if github_token else url\<close>.\<close>

definition target_url :: "CloneConfig \<Rightarrow> string" where
  "target_url config =
     (if truthy (github_token config) then authenticated_url config else url config)"

text \<open>\<open>clone_cmd\<close>, built by the same sequence of \<open>+=\<close> as in the source.\<close>

definition clone_cmd :: "CloneConfig \<Rightarrow> string list" where
  "clone_cmd config =
     (let cmd0 = [''git'', ''clone'', ''--single-branch''];
          cmd1 = (if partial_clone config
                  then cmd0 @ [''--filter=blob:none'', ''--sparse''] else cmd0);
          cmd2 = (if \<not> truthy (commit config)
                  then (let c = cmd1 @ [''--depth=1''] in
                        if truthy (branch config)
                           \<and> lower (the (branch config)) \<notin> {''main'', ''master''}
                        then c @ [''--branch'', the (branch config)] else c)
                  else cmd1)
      in cmd2 @ [target_url config, local_path config])"

text \<open>\<open>checkout_cmd\<close>: \<open>None\<close> when the follow-up step is skipped.\<close>

definition checkout_cmd :: "CloneConfig \<Rightarrow> string list option" where
  "checkout_cmd config =
     (if truthy (commit config) \<or> partial_clone config then
        (let cmd0 = [''git'', ''-C'', local_path config];
             cmd1 = (if partial_clone config then
                       (if blob config
                        then cmd0 @ [''sparse-checkout'', ''set'',
                                     butlast (lstrip CHR ''/'' (subpath config))]
                        else cmd0 @ [''sparse-checkout'', ''set'',
                                     lstrip CHR ''/'' (subpath config)])
                     else cmd0);
             cmd2 = (if truthy (commit config)
                     then cmd1 @ [''checkout'', the (commit config)] else cmd1)
         in Some cmd2)
      else None)"


section \<open>cloning.py: external processes\<close>

text \<open>
  The outcome of \<open>asyncio.create_subprocess_exec\<close> followed by \<open>communicate\<close>: the
  executable is missing, or the process ran and left a return code and the decoded text
  of its two streams. The environment gives the outcome of a process as a function of
  its argument vector, the parent directory of a path (\<open>pathlib\<close>), and the text of the
  \<open>OSError\<close> of \<open>os.makedirs\<close>, if it raises one. The wall-clock limit of
  \<open>async_timeout\<close> is outside the model.
\<close>

datatype proc = FileNotFound | Exited (returncode: int) (stdout: string) (stderr: string)

record env =
  path_parent :: "string \<Rightarrow> string"
  makedirs :: "string \<Rightarrow> string option"
  spawn :: "string list \<Rightarrow> proc"

text \<open>\<open>_get_status_code\<close>: the second space-separated field of the first line.\<close>

definition is_linebreak :: "char \<Rightarrow> bool" where
  "is_linebreak c = ((of_char c :: nat) \<in> {10, 11, 12, 13, 28, 29, 30, 133})"

definition is_digit :: "char \<Rightarrow> bool" where
  "is_digit c = (48 \<le> (of_char c :: nat) \<and> (of_char c :: nat) \<le> 57)"

definition digits_value :: "string \<Rightarrow> nat" where
  "digits_value s =
     foldl (\<lambda>acc c. if c = CHR ''_'' then acc else 10 * acc + ((of_char c :: nat) - 48)) 0 s"

definition valid_int_body :: "string \<Rightarrow> bool" where
  "valid_int_body s =
     (s \<noteq> [] \<and> list_all (\<lambda>c. is_digit c \<or> c = CHR ''_'') s
      \<and> is_digit (hd s) \<and> is_digit (last s) \<and> \<not> sublist ''__'' s)"

text \<open>
  \<open>int(s)\<close> on a string: surrounding whitespace, an optional sign, decimal digits
  with single underscores between them. The whitespace \<open>int\<close> skips is narrower than
  that of \<open>strip\<close>: tab to carriage return and the space, and the two spaces above 127
  (133 and 160), which it first turns into spaces; the separators 28 to 31 are not
  skipped. The message of the ValueError quotes the argument as given.
\<close>

definition is_int_space :: "char \<Rightarrow> bool" where
  "is_int_space c = ((of_char c :: nat) \<in> {9, 10, 11, 12, 13, 32, 133, 160})"

definition py_int :: "string \<Rightarrow> error + int" where
  "py_int s =
     (let t = rev (dropWhile is_int_space (rev (dropWhile is_int_space s)));
          neg = (t \<noteq> [] \<and> hd t = CHR ''-'');
          body = (if t \<noteq> [] \<and> (hd t = CHR ''-'' \<or> hd t = CHR ''+'') then tl t else t)
      in if valid_int_body body
         then Inr ((if neg then - 1 else 1) * int (digits_value body))
         else Inl (ValueError (''invalid literal for int() with base 10: '' @ py_repr s)))"

definition get_status_code :: "string \<Rightarrow> error + int" where
  "get_status_code response =
     (if response = [] then Inl (IndexError ''list index out of range'')
      else (let status_line = strip (takeWhile (\<lambda>c. \<not> is_linebreak c) response)
            in case py_split CHR '' '' status_line of
                 _ # field # _ \<Rightarrow> py_int field
               | _ \<Rightarrow> Inl (IndexError ''list index out of range'')))"

text \<open>The argument vector of the probe in \<open>_check_repo_exists\<close>.\<close>

definition curl_args :: "string \<Rightarrow> string list" where
  "curl_args u =
     [''curl'', ''-I'', ''-L''] @
     (if sublist ''@'' u \<and> sublist ''://'' u then
        (case split_once ''://'' u of
           None \<Rightarrow> [u]
         | Some (protocol_part, rest) \<Rightarrow>
             (case split_once ''@'' rest of
                None \<Rightarrow> [u]
              | Some (auth_part, domain_part) \<Rightarrow>
                  (if \<not> sublist '':'' auth_part \<and> length auth_part > 30
                   then [''-H'', ''Authorization: token '' @ auth_part,
                         protocol_part @ ''://'' @ domain_part]
                   else [''-u'', auth_part, protocol_part @ ''://'' @ domain_part])))
      else [u])"

definition check_repo_exists :: "env \<Rightarrow> string \<Rightarrow> error + bool" where
  "check_repo_exists e u =
     (case spawn e (curl_args u) of
        FileNotFound \<Rightarrow>
          Inl (FileNotFoundError (''[Errno 2] No such file or directory: '' @ py_repr ''curl''))
      | Exited rc out err \<Rightarrow>
          if rc \<noteq> 0 then Inr False
          else (case get_status_code out of
                  Inl ex \<Rightarrow> Inl ex
                | Inr status_code \<Rightarrow>
                    if status_code \<in> {200, 301} then Inr True
                    else if status_code \<in> {404, 302, 401, 403} then Inr False
                    else Inl (RuntimeError
                                (''Unexpected status code: '' @ show_int status_code))))"

definition check_git_installed :: "env \<Rightarrow> error + unit" where
  "check_git_installed e =
     (case spawn e [''git'', ''--version''] of
        FileNotFound \<Rightarrow>
          Inl (RuntimeError ''Git is not installed. Please install Git before proceeding.'')
      | Exited rc out err \<Rightarrow>
          if rc \<noteq> 0
          then Inl (RuntimeError (''Git is not installed or not accessible: '' @
                      (if err \<noteq> [] then strip err else ''Git command not found'')))
          else Inr ())"

text \<open>\<open>_run_command\<close>: the message of a failed command is the space-joined argument
  vector, a newline, and the stripped error stream. With no argument at all
  \<open>create_subprocess_exec\<close> has no program to start.\<close>

definition run_command :: "env \<Rightarrow> string list \<Rightarrow> error + (string \<times> string)" where
  "run_command e args =
     (case check_git_installed e of
        Inl ex \<Rightarrow> Inl ex
      | Inr _ \<Rightarrow>
          (case args of
             [] \<Rightarrow>
               Inl (TypeError (''create_subprocess_exec() missing 1 required positional '' @
                      ''argument: '' @ py_repr ''program''))
           | program # _ \<Rightarrow>
               (case spawn e args of
                  FileNotFound \<Rightarrow>
                    Inl (FileNotFoundError
                           (''[Errno 2] No such file or directory: '' @ py_repr program))
                | Exited rc out err \<Rightarrow>
                    if rc \<noteq> 0
                    then Inl (RuntimeError (''Command failed: '' @ py_join '' '' args @
                                [CHR 0x0A] @ ''Error: '' @ strip err))
                    else Inr (out, err))))"

definition clone_repo :: "env \<Rightarrow> CloneConfig \<Rightarrow> error + unit" where
  "clone_repo e config =
     (let parent_dir = path_parent e (local_path config) in
      case makedirs e parent_dir of
        Some exc \<Rightarrow>
          Inl (OSError (''Failed to create parent directory '' @ parent_dir @ '': '' @ exc))
      | None \<Rightarrow>
          (case check_repo_exists e (target_url config) of
             Inl ex \<Rightarrow> Inl ex
           | Inr repo_exists \<Rightarrow>
               if \<not> repo_exists then
                 (if truthy (github_token config)
                  then Inl (ValueError
                    ''Repository not found or access denied. Check your GitHub token permissions.'')
                  else Inl (ValueError
                    ''Repository not found, make sure it is public or provide a GitHub token.''))
               else
                 (case run_command e (clone_cmd config) of
                    Inl ex \<Rightarrow> Inl ex
                  | Inr _ \<Rightarrow>
                      (case checkout_cmd config of
                         None \<Rightarrow> Inr ()
                       | Some cmd \<Rightarrow>
                           (case run_command e cmd of
                              Inl ex \<Rightarrow> Inl ex
                            | Inr _ \<Rightarrow> Inr ())))))"


section \<open>query\_parsing.py: probing the known hosts\<close>

text \<open>
  \<open>try_domains_for_user_and_repo\<close>. \<open>KNOWN_GIT_HOSTS\<close> (of
  \<open>gitingest/utils/query_parser_utils.py\<close>) and \<open>GITHUB_TOKEN\<close> (read from the process
  environment by \<open>config.py\<close>) are parameters. The result carries the lines printed, in
  order: one \<open>Checking repository\<close> line before each probe.
\<close>

definition token_part :: "string \<Rightarrow> string" where
  "token_part token =
     (if length token > 8
      then take 4 token @ ''...'' @ drop (length token - 4) token else ''***'')"

definition quoted_slug :: "string \<Rightarrow> string \<Rightarrow> string" where
  "quoted_slug user repo = [CHR 0x27] @ user @ ''/'' @ repo @ [CHR 0x27]"

definition candidate_url :: "string \<Rightarrow> string \<Rightarrow> string \<Rightarrow> string \<Rightarrow> string" where
  "candidate_url token user repo domain =
     (if token \<noteq> [] \<and> domain = ''github.com''
      then ''https://'' @ token @ ''@'' @ domain @ ''/'' @ user @ ''/'' @ repo
      else ''https://'' @ domain @ ''/'' @ user @ ''/'' @ repo)"

definition checking_line :: "string \<Rightarrow> string \<Rightarrow> string \<Rightarrow> string" where
  "checking_line user repo domain =
     ''Checking repository: '' @ domain @ ''/'' @ user @ ''/'' @ repo"

fun probe_hosts ::
  "env \<Rightarrow> string \<Rightarrow> string \<Rightarrow> string \<Rightarrow> string list \<Rightarrow> string list \<times> (error + string)"
where
  "probe_hosts e token user repo [] =
     ([], Inl (ValueError
        (if token \<noteq> []
         then ''Repository not found or access denied. Check if '' @ quoted_slug user repo @
              '' exists and your token has correct permissions.''
         else ''Could not find a public repository for '' @ quoted_slug user repo @
              ''. For private repositories, provide a GitHub token.'')))"
| "probe_hosts e token user repo (domain # domains) =
     (case check_repo_exists e (candidate_url token user repo domain) of
        Inl ex \<Rightarrow> ([checking_line user repo domain], Inl ex)
      | Inr found \<Rightarrow>
          if found
          then ([checking_line user repo domain,
                 ''Repository found at: '' @ domain @ ''/'' @ user @ ''/'' @ repo],
                Inr domain)
          else (let (printed, res) = probe_hosts e token user repo domains
                in (checking_line user repo domain # printed, res)))"

definition try_domains_for_user_and_repo ::
  "string list \<Rightarrow> string \<Rightarrow> env \<Rightarrow> string \<Rightarrow> string \<Rightarrow> string option
     \<Rightarrow> string list \<times> (error + string)"
where
  "try_domains_for_user_and_repo KNOWN_GIT_HOSTS GITHUB_TOKEN e user repo github_token' =
     (let token = (if truthy github_token' then the github_token' else GITHUB_TOKEN);
          intro = (if token \<noteq> []
                   then [''Checking repository access with token: '' @ token_part token]
                   else []);
          (printed, res) = probe_hosts e token user repo KNOWN_GIT_HOSTS
      in (intro @ printed, res))"


section \<open>query\_parsing.py: resolving branch, commit and subpath\<close>

text \<open>
  Modelled from the spec: \<open>_is_valid_git_commit_hash\<close> lives in
  \<open>gitingest/utils/query_parser_utils.py\<close>, which is not among the sources. The spec
  says that a ref candidate is a commit if it is a hexadecimal string of plausible
  commit-hash length, 7 to 40 hexadecimal characters.
\<close>

definition is_hex_char :: "char \<Rightarrow> bool" where
  "is_hex_char c =
     (let n = (of_char c :: nat)
      in (48 \<le> n \<and> n \<le> 57) \<or> (97 \<le> n \<and> n \<le> 102) \<or> (65 \<le> n \<and> n \<le> 70))"

definition is_valid_git_commit_hash :: "string \<Rightarrow> bool" where
  "is_valid_git_commit_hash s = (7 \<le> length s \<and> length s \<le> 40 \<and> list_all is_hex_char s)"

text \<open>
  \<open>_configure_branch_and_subpath\<close>. The outcome of \<open>fetch_remote_branch_list(url)\<close> is
  an input: the branch names, or the exception raised. The function pops segments off
  the caller's list, so the model returns the list as it is left, and the warnings
  emitted, beside the value returned or the exception raised. The loop accumulates the
  popped segments in \<open>branch\<close> and stops at the first joined name that is a branch.
\<close>

fun accumulate_branch ::
  "string list \<Rightarrow> string list \<Rightarrow> string list \<Rightarrow> string option \<times> string list"
where
  "accumulate_branch branches branch' [] = (None, [])"
| "accumulate_branch branches branch' (p # remaining_parts) =
     (let branch_name = py_join ''/'' (branch' @ [p])
      in if branch_name \<in> set branches then (Some branch_name, remaining_parts)
         else accumulate_branch branches (branch' @ [p]) remaining_parts)"

definition configure_branch_and_subpath ::
  "error + string list \<Rightarrow> string list
     \<Rightarrow> (error + string option) \<times> string list \<times> string list"
where
  "configure_branch_and_subpath fetched remaining_parts =
     (case fetched of
        Inr branches \<Rightarrow>
          (let (found, rest) = accumulate_branch branches [] remaining_parts
           in (Inr found, rest, []))
      | Inl ex \<Rightarrow>
          (case ex of
             RuntimeError exc \<Rightarrow>
               (let w = ''Warning: Failed to fetch branch list: '' @ exc
                in case remaining_parts of
                     [] \<Rightarrow> (Inl (IndexError ''pop from empty list''), [], [w])
                   | p # ps \<Rightarrow> (Inr (Some p), ps, [w]))
           | _ \<Rightarrow> (Inl ex, remaining_parts, [])))"

text \<open>
  The \<open>try\<close> block of \<open>_parse_remote_repo\<close> that reads type, ref and subpath off the
  segments after user and repo: \<open>(subpath, query_type, branch, commit)\<close>. Every index
  it reads is guarded by a length test, so the \<open>except\<close> clause is never entered.
  The commit-hash test is a parameter.
\<close>

definition path_refs ::
  "(string \<Rightarrow> bool) \<Rightarrow> string list \<Rightarrow> string \<times> string option \<times> string option \<times> string option"
where
  "path_refs is_hash remaining_parts =
     (case remaining_parts of
        [] \<Rightarrow> (''/'', None, None, None)
      | p0 # rest \<Rightarrow>
          if p0 \<in> {''blob'', ''tree''} then
            (let (branch', commit') =
                   (case rest of
                      [] \<Rightarrow> (None, None)
                    | p1 # _ \<Rightarrow> if is_hash p1 then (None, Some p1) else (Some p1, None));
                 subpath' =
                   (if length remaining_parts > 2 then
                      (let s = ''/'' @ py_join ''/'' (drop 2 remaining_parts)
                       in if s \<noteq> [] \<and> \<not> suffix ''/'' s \<and> p0 = ''tree'' then s @ ''/'' else s)
                    else ''/'')
             in (subpath', Some p0, branch', commit'))
          else if p0 = ''raw'' \<and> length remaining_parts > 1 then
            (case rest of
               [] \<Rightarrow> (''/'', None, None, None)
             | p1 # _ \<Rightarrow>
                 (let (branch', commit') =
                        (if is_hash p1 then (None, Some p1) else (Some p1, None));
                      subpath' =
                        (if length remaining_parts > 2
                         then ''/'' @ py_join ''/'' (drop 2 remaining_parts) else ''/'')
                  in (subpath', Some ''blob'', branch', commit')))
          else (''/'', None, None, None))"

text \<open>
  The loop over the parts of the query string: each part that starts with \<open>ref=\<close>
  replaces the branch by element 1 of the part split at \<open>=\<close>.
\<close>

fun query_ref :: "string list \<Rightarrow> string option \<Rightarrow> error + string option" where
  "query_ref [] branch' = Inr branch'"
| "query_ref (part # query_parts) branch' =
     (if prefix ''ref='' part then
        (case py_split CHR ''='' part of
           _ # v # _ \<Rightarrow> query_ref query_parts (Some v)
         | _ \<Rightarrow> Inl (IndexError ''list index out of range''))
      else query_ref query_parts branch')"

text \<open>
  What \<open>_parse_remote_repo\<close> has in hand once the source string is validated: the
  lower-cased host, user and repository name (from \<open>_get_user_and_repo_from_path\<close>, not
  among the sources), path and query of the parsed URL, the fresh identifier, and
  \<open>TMP_BASE_PATH\<close>. The path join of \<open>pathlib\<close> is written as a join with \<open>/\<close>.
\<close>

record UrlParts =
  url_host :: string
  url_user :: string
  url_repo :: string
  url_path :: string
  url_query :: string
  uuid4 :: string
  TMP_BASE_PATH :: string

definition MAX_FILE_SIZE :: int where
  "MAX_FILE_SIZE = 10 * 1024 * 1024"

definition remaining_parts_of :: "UrlParts \<Rightarrow> string list" where
  "remaining_parts_of parsed_url = drop 3 (py_split CHR ''/'' (url_path parsed_url))"

text \<open>
  \<open>_parse_remote_repo\<close> from the point where the URL is parsed, in two steps. The first
  is what the path and the query string settle, \<open>(subpath, type, branch, commit)\<close>
  as they stand before the test \<open>if not branch and not commit\<close>.
\<close>

definition refs_before_fetch ::
  "(string \<Rightarrow> bool) \<Rightarrow> UrlParts
     \<Rightarrow> error + (string \<times> string option \<times> string option \<times> string option)"
where
  "refs_before_fetch is_hash parsed_url =
     (let (subpath', query_type, branch0, commit') =
            path_refs is_hash (remaining_parts_of parsed_url)
      in case (if url_query parsed_url \<noteq> []
               then query_ref (py_split CHR ''&'' (url_query parsed_url)) branch0
               else Inr branch0) of
           Inl ex \<Rightarrow> Inl ex
         | Inr branch1 \<Rightarrow> Inr (subpath', query_type, branch1, commit'))"

text \<open>
  The second step asks \<open>_configure_branch_and_subpath\<close> when neither branch nor commit
  is set, turns any exception of it into a warning, and builds the ParsedQuery. The
  result is the ParsedQuery and the warnings emitted.
\<close>

definition parse_remote_repo ::
  "(string \<Rightarrow> bool) \<Rightarrow> error + string list \<Rightarrow> UrlParts \<Rightarrow> string option
     \<Rightarrow> error + (ParsedQuery \<times> string list)"
where
  "parse_remote_repo is_hash fetched parsed_url github_token' =
     (let slug' = url_user parsed_url @ ''-'' @ url_repo parsed_url;
          local_path' = TMP_BASE_PATH parsed_url @ ''/'' @ uuid4 parsed_url @ ''/'' @ slug';
          url' = ''https://'' @ url_host parsed_url @ ''/'' @ url_user parsed_url @ ''/''
                   @ url_repo parsed_url;
          remaining_parts = remaining_parts_of parsed_url
      in case refs_before_fetch is_hash parsed_url of
           Inl ex \<Rightarrow> Inl ex
         | Inr (subpath', query_type, branch1, commit') \<Rightarrow>
             (let (branch2, warnings) =
                    (if \<not> truthy branch1 \<and> \<not> truthy commit' then
                       (case configure_branch_and_subpath fetched remaining_parts of
                          (Inr b, _, ws) \<Rightarrow> (b, ws)
                        | (Inl exc, _, ws) \<Rightarrow>
                            (branch1,
                             ws @ [''Failed to determine default branch: '' @ str_of_error exc]))
                     else (branch1, []))
              in Inr (\<lparr> user_name = Some (url_user parsed_url),
                         repo_name = Some (url_repo parsed_url),
                         q_local_path = local_path',
                         q_url = Some url',
                         slug = slug',
                         q_id = uuid4 parsed_url,
                         q_subpath = subpath',
                         q_type = query_type,
                         q_branch = branch2,
                         q_commit = commit',
                         max_file_size = MAX_FILE_SIZE,
                         ignore_patterns = None,
                         include_patterns = None,
                         pattern_type = None,
                         q_github_token = github_token' \<rparr>, warnings)))"

text \<open>\<open>_parse_local_dir_path\<close>: a local query has no URL. The resolved path and the
  fresh identifier are inputs; \<open>path_str.strip("/")\<close> strips slashes at both ends.\<close>

definition parse_local_dir_path :: "string \<Rightarrow> string \<Rightarrow> string \<Rightarrow> string \<Rightarrow> ParsedQuery" where
  "parse_local_dir_path path_str resolved resolved_name uuid =
     \<lparr> user_name = None,
       repo_name = None,
       q_local_path = resolved,
       q_url = None,
       slug = (if path_str = ''.'' then resolved_name
               else rev (lstrip CHR ''/'' (rev (lstrip CHR ''/'' path_str)))),
       q_id = uuid,
       q_subpath = ''/'',
       q_type = None,
       q_branch = None,
       q_commit = None,
       max_file_size = MAX_FILE_SIZE,
       ignore_patterns = None,
       include_patterns = None,
       pattern_type = None,
       q_github_token = None \<rparr>"


section \<open>Concrete inputs\<close>

definition example_query :: ParsedQuery where
  "example_query =
     \<lparr> user_name = Some ''o'', repo_name = Some ''r'', q_local_path = ''/tmp/gitingest/id/o-r'',
       q_url = Some ''https://github.com/o/r'', slug = ''o-r'', q_id = ''id'',
       q_subpath = ''/file.py'', q_type = Some ''blob'', q_branch = Some ''main'',
       q_commit = None, max_file_size = MAX_FILE_SIZE, ignore_patterns = None,
       include_patterns = None, pattern_type = None, q_github_token = None \<rparr>"

definition src_config :: CloneConfig where
  "src_config =
     \<lparr> url = ''https://github.com/o/r'', local_path = ''/tmp/gitingest/id/o-r'',
       commit = None, branch = Some ''dev'', subpath = ''/src/'', blob = False,
       github_token = None \<rparr>"


text \<open>A scripted environment: a table from argument vectors to outcomes, and the
  outcome of every other command. Directories are created without error.\<close>

definition dirname :: "string \<Rightarrow> string" where
  "dirname p = rev (tl (dropWhile (\<lambda>c. c \<noteq> CHR ''/'') (rev p)))"

definition scripted_env :: "(string list \<times> proc) list \<Rightarrow> proc \<Rightarrow> env" where
  "scripted_env table other =
     \<lparr> path_parent = dirname,
       makedirs = (\<lambda>_. None),
       spawn = (\<lambda>args. case map_of table args of Some p \<Rightarrow> p | None \<Rightarrow> other) \<rparr>"

definition git_version_ok :: "string list \<times> proc" where
  "git_version_ok = ([''git'', ''--version''], Exited 0 ''git version 2.43.0'' [])"

text \<open>A GitHub repository cloned with a token; the probe answers 200 and every git
  command but \<open>git --version\<close> fails with status 128.\<close>

definition leak_config :: CloneConfig where
  "leak_config =
     \<lparr> url = ''https://github.com/o/r'', local_path = ''/tmp/gitingest/id/o-r'',
       commit = None, branch = None, subpath = ''/'', blob = False,
       github_token = Some ''ghp_secret'' \<rparr>"

definition leak_env :: env where
  "leak_env =
     scripted_env
       [([''curl'', ''-I'', ''-L'', ''-u'', ''ghp_secret'', ''https://github.com/o/r''],
         Exited 0 ''HTTP/2 200'' []),
        git_version_ok]
       (Exited 128 [] ''fatal: unable to access the repository'')"

definition leak_message :: string where
  "leak_message =
     ''Command failed: git clone --single-branch --depth=1 '' @
     ''https://ghp_secret@github.com/o/r /tmp/gitingest/id/o-r'' @ [CHR 0x0A] @
     ''Error: fatal: unable to access the repository''"


text \<open>A GitLab repository cloned with a token, where the probe answers 404, and where
  it answers 200 and every git command succeeds.\<close>

definition gitlab_config :: CloneConfig where
  "gitlab_config =
     \<lparr> url = ''https://gitlab.com/o/r'', local_path = ''/tmp/gitingest/id/o-r'',
       commit = None, branch = None, subpath = ''/'', blob = False,
       github_token = Some ''ghp_secret'' \<rparr>"

definition absent_env :: env where
  "absent_env =
     scripted_env
       [([''curl'', ''-I'', ''-L'', ''https://gitlab.com/o/r''], Exited 0 ''HTTP/2 404'' []),
        git_version_ok]
       (Exited 0 [] [])"

definition present_env :: env where
  "present_env =
     scripted_env
       [([''curl'', ''-I'', ''-L'', ''https://gitlab.com/o/r''], Exited 0 ''HTTP/2 200'' []),
        git_version_ok]
       (Exited 0 [] [])"




text \<open>The type, branch, commit and subpath of a parse result.\<close>

definition refs_of ::
  "error + (ParsedQuery \<times> string list)
     \<Rightarrow> error + (string option \<times> string option \<times> string option \<times> string)"
where
  "refs_of r =
     (case r of
        Inl ex \<Rightarrow> Inl ex
      | Inr (q, ws) \<Rightarrow> Inr (q_type q, q_branch q, q_commit q, q_subpath q))"

text \<open>The parts of \<open>https://github.com/o/r\<close> followed by a path and a query string.\<close>

text \<open>The warnings of a parse result.\<close>

definition warnings_of :: "error + (ParsedQuery \<times> string list) \<Rightarrow> string list" where
  "warnings_of r = (case r of Inl ex \<Rightarrow> [] | Inr (q, ws) \<Rightarrow> ws)"

text \<open>What \<open>stdout.decode()\<close> raises in \<open>fetch_remote_branch_list\<close> on output that is
  not UTF-8: a UnicodeDecodeError, which is a ValueError.\<close>

definition decode_error :: error where
  "decode_error =
     ValueError ([CHR 0x27] @ ''utf-8'' @ [CHR 0x27] @
       '' codec can't decode byte 0xff in position 41: invalid start byte'')"

definition example_sha :: string where
  "example_sha = ''0123456789abcdef0123456789abcdef01234567''"

definition github_url :: "string \<Rightarrow> string \<Rightarrow> UrlParts" where
  "github_url rest q =
     \<lparr> url_host = ''github.com'', url_user = ''o'', url_repo = ''r'',
       url_path = ''/o/r'' @ rest, url_query = q, uuid4 = ''id'',
       TMP_BASE_PATH = ''/tmp/gitingest'' \<rparr>"


section \<open>The projection to CloneConfig\<close>

text \<open>
  Claim C9. A ParsedQuery whose url is \<open>None\<close> (or the empty string, which Python
  treats alike) makes \<open>extact_clone_config\<close> raise ValueError and yields no CloneConfig;
  this is the case of every query built by \<open>_parse_local_dir_path\<close>. A ParsedQuery with
  a url yields a CloneConfig that copies url, local path, commit, branch, subpath and
  token, and whose blob flag is set exactly when the query type is \<open>blob\<close>.
\<close>

theorem extact_clone_config_url:
  "(q_url self = None \<or> q_url self = Some [] \<longrightarrow>
      extact_clone_config self = Inl (ValueError ''The 'url' parameter is required.''))
   \<and> (\<forall>u. q_url self = Some u \<and> u \<noteq> [] \<longrightarrow>
        (\<exists>c. extact_clone_config self = Inr c \<and> url c = u
             \<and> blob c = (q_type self = Some ''blob'')
             \<and> local_path c = q_local_path self \<and> commit c = q_commit self
             \<and> branch c = q_branch self \<and> subpath c = q_subpath self
             \<and> github_token c = q_github_token self))
   \<and> extact_clone_config (parse_local_dir_path path_str resolved resolved_name uuid)
        = Inl (ValueError ''The 'url' parameter is required.'')"
  by (auto simp: extact_clone_config_def parse_local_dir_path_def)

theorem extact_clone_config_url_witness:
  "q_url example_query = Some ''https://github.com/o/r''
   \<and> (\<exists>c. extact_clone_config example_query = Inr c \<and> url c = ''https://github.com/o/r''
            \<and> blob c)
   \<and> q_url (example_query\<lparr>q_url := None\<rparr>) = None
   \<and> extact_clone_config (example_query\<lparr>q_url := None\<rparr>)
        = Inl (ValueError ''The 'url' parameter is required.'')"
proof -
  have u: "q_url example_query = Some ''https://github.com/o/r''"
    and t: "q_type example_query = Some ''blob''"
    and n: "q_url (example_query\<lparr>q_url := None\<rparr>) = None"
    by (simp_all add: example_query_def)
  from extact_clone_config_url
         [where self = example_query and path_str = "''.''" and resolved = "''/srv/p''"
            and resolved_name = "''p''" and uuid = "''id''"] u t
  have "\<exists>c. extact_clone_config example_query = Inr c
            \<and> url c = ''https://github.com/o/r'' \<and> blob c"
    by auto
  moreover from extact_clone_config_url
         [where self = "example_query\<lparr>q_url := None\<rparr>" and path_str = "''.''"
            and resolved = "''/srv/p''" and resolved_name = "''p''" and uuid = "''id''"] n
  have "extact_clone_config (example_query\<lparr>q_url := None\<rparr>)
          = Inl (ValueError ''The 'url' parameter is required.'')"
    by blast
  ultimately show ?thesis using u n by blast
qed


section \<open>The clone command\<close>

text \<open>
  Claim C4. The clone command is \<open>git clone --single-branch\<close>, then the two
  partial-clone flags exactly when the subpath is not \<open>/\<close>, then \<open>--depth=1\<close> exactly
  when no commit is pinned, then \<open>--branch\<close> with the branch exactly when a branch is
  set, no commit is pinned and the branch, lower-cased as the source does, is neither
  \<open>main\<close> nor \<open>master\<close>, then the URL and the local path. When none of the values
  supplied (URL, local path, branch) starts with \<open>--\<close>, each flag occurs in the command
  exactly under its condition.
\<close>

theorem clone_cmd_flags:
  "clone_cmd config =
     [''git'', ''clone'', ''--single-branch'']
     @ (if subpath config \<noteq> ''/'' then [''--filter=blob:none'', ''--sparse''] else [])
     @ (if \<not> truthy (commit config) then [''--depth=1''] else [])
     @ (if truthy (branch config) \<and> \<not> truthy (commit config)
           \<and> lower (the (branch config)) \<notin> {''main'', ''master''}
        then [''--branch'', the (branch config)] else [])
     @ [target_url config, local_path config]
   \<and> ''--single-branch'' \<in> set (clone_cmd config)
   \<and> ((\<forall>v \<in> {target_url config, local_path config} \<union> set_option (branch config).
          \<not> prefix ''--'' v) \<longrightarrow>
        (''--filter=blob:none'' \<in> set (clone_cmd config) \<longleftrightarrow> subpath config \<noteq> ''/'')
      \<and> (''--sparse'' \<in> set (clone_cmd config) \<longleftrightarrow> subpath config \<noteq> ''/'')
      \<and> (''--depth=1'' \<in> set (clone_cmd config) \<longleftrightarrow> \<not> truthy (commit config))
      \<and> (''--branch'' \<in> set (clone_cmd config) \<longleftrightarrow>
             truthy (branch config) \<and> \<not> truthy (commit config)
             \<and> lower (the (branch config)) \<notin> {''main'', ''master''}))"
proof -
  have eq: "clone_cmd config =
     [''git'', ''clone'', ''--single-branch'']
     @ (if subpath config \<noteq> ''/'' then [''--filter=blob:none'', ''--sparse''] else [])
     @ (if \<not> truthy (commit config) then [''--depth=1''] else [])
     @ (if truthy (branch config) \<and> \<not> truthy (commit config)
           \<and> lower (the (branch config)) \<notin> {''main'', ''master''}
        then [''--branch'', the (branch config)] else [])
     @ [target_url config, local_path config]"
    by (simp add: clone_cmd_def partial_clone_def Let_def)
  have single: "''--single-branch'' \<in> set (clone_cmd config)"
    by (simp add: eq)
  have opts: "(''--filter=blob:none'' \<in> set (clone_cmd config) \<longleftrightarrow> subpath config \<noteq> ''/'')
      \<and> (''--sparse'' \<in> set (clone_cmd config) \<longleftrightarrow> subpath config \<noteq> ''/'')
      \<and> (''--depth=1'' \<in> set (clone_cmd config) \<longleftrightarrow> \<not> truthy (commit config))
      \<and> (''--branch'' \<in> set (clone_cmd config) \<longleftrightarrow>
             truthy (branch config) \<and> \<not> truthy (commit config)
             \<and> lower (the (branch config)) \<notin> {''main'', ''master''})"
    if h: "\<forall>v \<in> {target_url config, local_path config} \<union> set_option (branch config).
          \<not> prefix ''--'' v"
  proof -
    have t: "\<not> prefix ''--'' (target_url config)" and l: "\<not> prefix ''--'' (local_path config)"
      using h by simp_all
    have b: "\<not> prefix ''--'' (the (branch config))" if "truthy (branch config)"
      using h that by (cases "branch config") simp_all
    have nt: "target_url config \<notin> {''--filter=blob:none'', ''--sparse'', ''--depth=1'', ''--branch''}"
      using t by auto
    have nl: "local_path config \<notin> {''--filter=blob:none'', ''--sparse'', ''--depth=1'', ''--branch''}"
      using l by auto
    have nb: "the (branch config) \<notin> {''--filter=blob:none'', ''--sparse'', ''--depth=1'', ''--branch''}"
      if "truthy (branch config)"
      using b [OF that] by auto
    show ?thesis
      using nt nl nb by (auto simp: eq)
  qed
  show ?thesis using eq single opts by blast
qed

theorem clone_cmd_flags_witness:
  "\<not> prefix ''--'' (target_url src_config) \<and> \<not> prefix ''--'' (local_path src_config)
   \<and> branch src_config = Some ''dev'' \<and> \<not> prefix ''--'' ''dev''
   \<and> clone_cmd src_config =
       [''git'', ''clone'', ''--single-branch'', ''--filter=blob:none'', ''--sparse'',
        ''--depth=1'', ''--branch'', ''dev'', ''https://github.com/o/r'',
        ''/tmp/gitingest/id/o-r'']
   \<and> ''--sparse'' \<in> set (clone_cmd src_config)
   \<and> ''--sparse'' \<notin> set (clone_cmd (src_config\<lparr>subpath := ''/''\<rparr>))"
proof -
  have h1: "\<forall>v \<in> {target_url src_config, local_path src_config}
                   \<union> set_option (branch src_config). \<not> prefix ''--'' v"
    by (simp add: src_config_def target_url_def)
  have h2: "\<forall>v \<in> {target_url (src_config\<lparr>subpath := ''/''\<rparr>),
                    local_path (src_config\<lparr>subpath := ''/''\<rparr>)}
                   \<union> set_option (branch (src_config\<lparr>subpath := ''/''\<rparr>)). \<not> prefix ''--'' v"
    by (simp add: src_config_def target_url_def)
  have e: "clone_cmd src_config =
       [''git'', ''clone'', ''--single-branch'', ''--filter=blob:none'', ''--sparse'',
        ''--depth=1'', ''--branch'', ''dev'', ''https://github.com/o/r'',
        ''/tmp/gitingest/id/o-r'']"
    using clone_cmd_flags [of src_config]
    by (simp add: src_config_def target_url_def lower_def lower_char_def)
  have p1: "subpath src_config \<noteq> ''/''"
    and p2: "subpath (src_config\<lparr>subpath := ''/''\<rparr>) = ''/''"
    by (simp_all add: src_config_def)
  have s1: "''--sparse'' \<in> set (clone_cmd src_config)"
    using clone_cmd_flags [of src_config] h1 p1 by blast
  have s2: "''--sparse'' \<notin> set (clone_cmd (src_config\<lparr>subpath := ''/''\<rparr>))"
    using clone_cmd_flags [of "src_config\<lparr>subpath := ''/''\<rparr>"] h2 p2 by blast
  have h0: "\<not> prefix ''--'' (target_url src_config) \<and> \<not> prefix ''--'' (local_path src_config)
      \<and> branch src_config = Some ''dev'' \<and> \<not> prefix ''--'' ''dev''"
    by (simp add: src_config_def target_url_def)
  show ?thesis using h0 e s1 s2 by blast
qed


section \<open>The sparse-checkout target\<close>

text \<open>
  Claim C5, evaluated on the code. The URL \<open>https://github.com/o/r/blob/main/file.py\<close>
  parses to a blob query with subpath \<open>/file.py\<close>, which has no trailing separator;
  the checkout step is handed \<open>file.p\<close>: the slice \<open>[:-1]\<close> removes the last
  character whatever it is.
\<close>

theorem blob_checkout_target_loses_last_character:
  "parse_remote_repo is_valid_git_commit_hash (Inr [''main''])
     \<lparr> url_host = ''github.com'', url_user = ''o'', url_repo = ''r'',
       url_path = ''/o/r/blob/main/file.py'', url_query = [], uuid4 = ''id'',
       TMP_BASE_PATH = ''/tmp/gitingest'' \<rparr> None
     = Inr (example_query, [])
   \<and> extact_clone_config example_query
     = Inr \<lparr> url = ''https://github.com/o/r'', local_path = ''/tmp/gitingest/id/o-r'',
             commit = None, branch = Some ''main'', subpath = ''/file.py'', blob = True,
             github_token = None \<rparr>
   \<and> checkout_cmd \<lparr> url = ''https://github.com/o/r'', local_path = ''/tmp/gitingest/id/o-r'',
             commit = None, branch = Some ''main'', subpath = ''/file.py'', blob = True,
             github_token = None \<rparr>
     = Some [''git'', ''-C'', ''/tmp/gitingest/id/o-r'', ''sparse-checkout'', ''set'', ''file.p'']"
  by (simp add: parse_remote_repo_def remaining_parts_of_def path_refs_def
        refs_before_fetch_def is_valid_git_commit_hash_def example_query_def
        extact_clone_config_def
        checkout_cmd_def partial_clone_def lstrip_def Let_def)


section \<open>Errors of the clone and checkout commands\<close>

text \<open>
  Claim C3, evaluated on the code. A GitHub repository is cloned with the token
  \<open>ghp_secret\<close>; the probe answers 200 and \<open>git clone\<close> exits with status 128. The
  RuntimeError that \<open>clone_repo\<close> raises surfaces the error stream, and its command text
  is the argument vector as it was run: the clone URL with the token as userinfo. The
  token is in the message.
\<close>

theorem clone_failure_message_contains_token:
  "clone_repo leak_env leak_config = Inl (RuntimeError leak_message)
   \<and> github_token leak_config = Some ''ghp_secret''
   \<and> sublist ''ghp_secret'' leak_message"
  by code_simp


section \<open>The token and the host\<close>

lemma target_url_without_token: "target_url (config\<lparr>github_token := None\<rparr>) = url config"
  by (simp add: target_url_def)

lemma target_url_changed:
  "target_url config \<noteq> url config \<Longrightarrow>
     truthy (github_token config) \<and> sublist ''github.com'' (url config)
       \<and> prefix ''https://'' (url config)"
  by (auto simp: target_url_def authenticated_url_def split: if_splits)

lemma target_url_other_host:
  "\<not> sublist ''github.com'' (url config) \<Longrightarrow> target_url config = url config"
  by (simp add: target_url_def authenticated_url_def)

lemma clone_cmd_other_host:
  "\<not> sublist ''github.com'' (url config) \<Longrightarrow>
     clone_cmd config = clone_cmd (config\<lparr>github_token := None\<rparr>)"
  by (simp add: clone_cmd_def partial_clone_def target_url_other_host target_url_without_token
        Let_def)

lemma checkout_cmd_without_token:
  "checkout_cmd config = checkout_cmd (config\<lparr>github_token := None\<rparr>)"
  by (simp add: checkout_cmd_def partial_clone_def Let_def)

text \<open>
  Claim C10 as stated fails on two counts. For a GitLab URL whose probe answers 404,
  \<open>clone_repo\<close> with a token raises the access-denied ValueError, and without a token the
  make-it-public ValueError, so a run with a token on another host is not in every
  respect the run without one. And the test for GitHub is a substring test on the whole
  URL: the host \<open>notgithub.com.example.org\<close> is another host, and the token is attached
  to its URL.
\<close>

theorem token_changes_not_found_error:
  "\<not> sublist ''github.com'' (url gitlab_config)
   \<and> clone_repo absent_env gitlab_config =
       Inl (ValueError
         ''Repository not found or access denied. Check your GitHub token permissions.'')
   \<and> clone_repo absent_env (gitlab_config\<lparr>github_token := None\<rparr>) =
       Inl (ValueError
         ''Repository not found, make sure it is public or provide a GitHub token.'')
   \<and> target_url (gitlab_config\<lparr>url := ''https://notgithub.com.example.org/o/r''\<rparr>)
       = ''https://ghp_secret@notgithub.com.example.org/o/r''
   \<and> target_url (gitlab_config\<lparr>url := ''https://notgithub.com.example.org/o/r'',
                                  github_token := None\<rparr>)
       = ''https://notgithub.com.example.org/o/r''"
  by code_simp

text \<open>
  Claim C10, amended. The URL handed to the probe and to \<open>git clone\<close> differs from the
  repository URL only when a token is set, the URL contains \<open>github.com\<close> and it
  starts with \<open>https://\<close>. For a URL that does not contain \<open>github.com\<close> the probe
  URL, the clone command and the checkout command are those of the run without a token,
  and the outcome of \<open>clone_repo\<close> is the same, except that when the probe reports the
  repository missing the ValueError carries the message chosen by the presence of the
  token.
\<close>

theorem token_ignored_off_github:
  "(target_url config \<noteq> url config \<longrightarrow>
      truthy (github_token config) \<and> sublist ''github.com'' (url config)
        \<and> prefix ''https://'' (url config))
   \<and> (\<not> sublist ''github.com'' (url config) \<longrightarrow>
        target_url config = url config
        \<and> target_url (config\<lparr>github_token := None\<rparr>) = url config
        \<and> clone_cmd config = clone_cmd (config\<lparr>github_token := None\<rparr>)
        \<and> checkout_cmd config = checkout_cmd (config\<lparr>github_token := None\<rparr>)
        \<and> (makedirs e (path_parent e (local_path config)) \<noteq> None
             \<or> check_repo_exists e (url config) \<noteq> Inr False \<longrightarrow>
           clone_repo e config = clone_repo e (config\<lparr>github_token := None\<rparr>))
        \<and> (makedirs e (path_parent e (local_path config)) = None
             \<and> check_repo_exists e (url config) = Inr False \<longrightarrow>
           clone_repo e (config\<lparr>github_token := None\<rparr>) =
             Inl (ValueError
               ''Repository not found, make sure it is public or provide a GitHub token.'')
           \<and> clone_repo e config =
             Inl (ValueError
               (if truthy (github_token config)
                then ''Repository not found or access denied. Check your GitHub token permissions.''
                else ''Repository not found, make sure it is public or provide a GitHub token.''))))"
proof -
  have same: "clone_repo e config = clone_repo e (config\<lparr>github_token := None\<rparr>)"
    if h: "\<not> sublist ''github.com'' (url config)"
      and c: "makedirs e (path_parent e (local_path config)) \<noteq> None
             \<or> check_repo_exists e (url config) \<noteq> Inr False"
  proof -
    have cmd: "clone_cmd (config\<lparr>github_token := None\<rparr>) = clone_cmd config"
      using clone_cmd_other_host [OF h] by simp
    have chk: "checkout_cmd (config\<lparr>github_token := None\<rparr>) = checkout_cmd config"
      using checkout_cmd_without_token [of config] by simp
    show ?thesis
      using c
      by (auto simp: clone_repo_def target_url_other_host [OF h] target_url_without_token
            cmd chk Let_def split: option.splits sum.splits)
  qed
  have differ: "clone_repo e (config\<lparr>github_token := None\<rparr>) =
             Inl (ValueError
               ''Repository not found, make sure it is public or provide a GitHub token.'')
           \<and> clone_repo e config =
             Inl (ValueError
               (if truthy (github_token config)
                then ''Repository not found or access denied. Check your GitHub token permissions.''
                else ''Repository not found, make sure it is public or provide a GitHub token.''))"
    if h: "\<not> sublist ''github.com'' (url config)"
      and c: "makedirs e (path_parent e (local_path config)) = None"
             "check_repo_exists e (url config) = Inr False"
    using c by (simp add: clone_repo_def target_url_other_host [OF h] target_url_without_token)
  show ?thesis
    using target_url_changed [of config] target_url_other_host [of config]
      target_url_without_token [of config] clone_cmd_other_host [of config]
      checkout_cmd_without_token [of config] same differ
    by blast
qed

lemma present_facts:
  "\<not> sublist ''github.com'' (url gitlab_config)"
  "check_repo_exists present_env (url gitlab_config) = Inr True"
  "clone_repo present_env (gitlab_config\<lparr>github_token := None\<rparr>) = Inr ()"
  "target_url gitlab_config = ''https://gitlab.com/o/r''"
  by code_simp+

theorem token_ignored_off_github_witness:
  "\<not> sublist ''github.com'' (url gitlab_config)
   \<and> check_repo_exists present_env (url gitlab_config) = Inr True
   \<and> target_url gitlab_config = url gitlab_config
   \<and> clone_cmd gitlab_config = clone_cmd (gitlab_config\<lparr>github_token := None\<rparr>)
   \<and> clone_repo present_env gitlab_config = Inr ()"
proof -
  have ne: "check_repo_exists present_env (url gitlab_config) \<noteq> Inr False"
    using present_facts(2) by simp
  from token_ignored_off_github [of gitlab_config present_env] present_facts(1) ne
  have "target_url gitlab_config = url gitlab_config
   \<and> clone_cmd gitlab_config = clone_cmd (gitlab_config\<lparr>github_token := None\<rparr>)
   \<and> clone_repo present_env gitlab_config
       = clone_repo present_env (gitlab_config\<lparr>github_token := None\<rparr>)"
    by blast
  then show ?thesis using present_facts by simp
qed


section \<open>The existence probe and the host loop\<close>


lemma probe_hosts_first_match:
  assumes "\<forall>d \<in> set before. check_repo_exists e (candidate_url token user repo d) = Inr False"
    and "check_repo_exists e (candidate_url token user repo domain) = Inr True"
  shows "snd (probe_hosts e token user repo (before @ domain # after)) = Inr domain"
  using assms by (induction before) (simp_all add: split_def)





section \<open>Resolving branch and commit\<close>

lemma py_split_not_Nil: "py_split c s \<noteq> []"
  by (induction s) (auto split: list.splits)

lemma ref_part_has_value:
  assumes "prefix ''ref='' part"
  shows "\<exists>a v rest. py_split CHR ''='' part = a # v # rest"
proof -
  from assms obtain t where "part = ''ref='' @ t" by (auto simp: prefix_def)
  moreover obtain v rest where "py_split CHR ''='' t = v # rest"
    using py_split_not_Nil [of "CHR ''=''" t] by (cases "py_split CHR ''='' t") auto
  ultimately show ?thesis by (auto split: list.splits)
qed

lemma query_ref_total: "\<exists>b. query_ref query_parts b0 = Inr b"
proof (induction query_parts arbitrary: b0)
  case Nil
  then show ?case by simp
next
  case (Cons part query_parts)
  show ?case
  proof (cases "prefix ''ref='' part")
    case True
    then obtain a v rest where "py_split CHR ''='' part = a # v # rest"
      using ref_part_has_value by blast
    then show ?thesis using True Cons.IH [of "Some v"] by simp
  next
    case False
    then show ?thesis using Cons.IH [of b0] by simp
  qed
qed

lemma query_ref_without_ref:
  "\<forall>part \<in> set query_parts. \<not> prefix ''ref='' part \<Longrightarrow> query_ref query_parts b0 = Inr b0"
  by (induction query_parts) simp_all

lemma path_refs_exclusive:
  assumes "path_refs is_hash rp = (sp, ty, b0, c0)"
  shows "b0 = None \<or> c0 = None"
  using assms
  by (auto simp: path_refs_def Let_def split: list.splits if_splits)

lemma path_refs_commit:
  assumes "path_refs is_hash rp = (sp, ty, b0, Some h)"
  shows "is_hash h \<and> (\<exists>p0 rest. rp = p0 # h # rest \<and> p0 \<in> {''blob'', ''tree'', ''raw''})"
  using assms
  by (auto simp: path_refs_def Let_def split: list.splits if_splits)

lemma path_refs_pinned:
  assumes "rp = p0 # h # rest" "p0 \<in> {''blob'', ''tree'', ''raw''}" "is_hash h"
  shows "\<exists>sp ty. path_refs is_hash rp = (sp, ty, None, Some h)"
  using assms by (auto simp: path_refs_def Let_def)

lemma path_refs_branch:
  assumes "rp = p0 # p1 # rest" "p0 \<in> {''blob'', ''tree'', ''raw''}" "\<not> is_hash p1"
  shows "\<exists>sp ty. path_refs is_hash rp = (sp, ty, Some p1, None)"
  using assms by (auto simp: path_refs_def Let_def)

lemma path_refs_type:
  assumes "rp = p0 # rest" "p0 \<in> {''blob'', ''tree''}"
  shows "\<exists>sp b c. path_refs is_hash rp = (sp, Some p0, b, c)"
  using assms by (auto simp: path_refs_def Let_def split: list.splits)

lemma refs_before_fetch_total:
  "\<exists>sp ty b1 c0. refs_before_fetch is_hash pu = Inr (sp, ty, b1, c0)"
proof -
  obtain sp ty b0 c0 where p: "path_refs is_hash (remaining_parts_of pu) = (sp, ty, b0, c0)"
    by (metis prod_cases4)
  obtain b where "query_ref (py_split CHR ''&'' (url_query pu)) b0 = Inr b"
    using query_ref_total by blast
  then show ?thesis using p by (simp add: refs_before_fetch_def)
qed

lemma refs_before_fetch_without_ref:
  assumes "\<forall>part \<in> set (py_split CHR ''&'' (url_query pu)). \<not> prefix ''ref='' part"
    and "path_refs is_hash (remaining_parts_of pu) = (sp, ty, b0, c0)"
  shows "refs_before_fetch is_hash pu = Inr (sp, ty, b0, c0)"
  using assms query_ref_without_ref [OF assms(1)] by (simp add: refs_before_fetch_def)



lemma accumulate_branch_no_match:
  assumes "\<forall>j. 1 \<le> j \<and> j \<le> length segs \<longrightarrow> py_join ''/'' (acc @ take j segs) \<notin> set branches"
  shows "accumulate_branch branches acc segs = (None, [])"
  using assms
proof (induction segs arbitrary: acc)
  case Nil
  then show ?case by simp
next
  case (Cons p ps)
  have first: "py_join ''/'' (acc @ [p]) \<notin> set branches"
    using Cons.prems by (auto dest: spec [of _ 1])
  have "\<forall>j. 1 \<le> j \<and> j \<le> length ps \<longrightarrow> py_join ''/'' ((acc @ [p]) @ take j ps) \<notin> set branches"
  proof (intro allI impI)
    fix j assume "1 \<le> j \<and> j \<le> length ps"
    then have "1 \<le> Suc j \<and> Suc j \<le> length (p # ps)" by simp
    then have "py_join ''/'' (acc @ take (Suc j) (p # ps)) \<notin> set branches"
      using Cons.prems by blast
    then show "py_join ''/'' ((acc @ [p]) @ take j ps) \<notin> set branches" by simp
  qed
  then show ?case using first Cons.IH by simp
qed

lemma parse_remote_repo_fields:
  assumes "refs_before_fetch is_hash pu = Inr (sp, ty, b1, c0)"
  shows "\<exists>q ws. parse_remote_repo is_hash fetched pu tok = Inr (q, ws)
           \<and> q_subpath q = sp \<and> q_type q = ty \<and> q_commit q = c0
           \<and> (q_branch q, ws) =
               (if \<not> truthy b1 \<and> \<not> truthy c0 then
                  (case configure_branch_and_subpath fetched (remaining_parts_of pu) of
                     (Inr b, _, w) \<Rightarrow> (b, w)
                   | (Inl exc, _, w) \<Rightarrow>
                       (b1, w @ [''Failed to determine default branch: '' @ str_of_error exc]))
                else (b1, []))"
  using assms
  by (simp add: parse_remote_repo_def Let_def split: prod.splits sum.splits)

lemma parse_remote_repo_total:
  "\<exists>q ws. parse_remote_repo is_hash fetched pu tok = Inr (q, ws)"
proof -
  obtain sp ty b1 c0 where "refs_before_fetch is_hash pu = Inr (sp, ty, b1, c0)"
    using refs_before_fetch_total by blast
  from parse_remote_repo_fields [OF this, of fetched tok] show ?thesis
    by (elim exE conjE) (intro exI)
qed

lemma configure_fetch_ok:
  "configure_branch_and_subpath (Inr branches) segs
     = (Inr (fst (accumulate_branch branches [] segs)),
        snd (accumulate_branch branches [] segs), [])"
  by (simp add: configure_branch_and_subpath_def split_def Let_def)

lemma configure_fetch_runtime_error:
  "configure_branch_and_subpath (Inl (RuntimeError msg)) (p # ps)
     = (Inr (Some p), ps, [''Warning: Failed to fetch branch list: '' @ msg])"
  "configure_branch_and_subpath (Inl (RuntimeError msg)) []
     = (Inl (IndexError ''pop from empty list''), [],
        [''Warning: Failed to fetch branch list: '' @ msg])"
  by (simp_all add: configure_branch_and_subpath_def)

lemma configure_fetch_other_error:
  "\<forall>msg. ex \<noteq> RuntimeError msg \<Longrightarrow>
     configure_branch_and_subpath (Inl ex) segs = (Inl ex, segs, [])"
  by (cases ex) (simp_all add: configure_branch_and_subpath_def)

lemma query_ref_last:
  assumes "query_parts = pre @ part # post"
    and "prefix ''ref='' part"
    and "\<forall>x \<in> set post. \<not> prefix ''ref='' x"
    and "py_split CHR ''='' part = a # v # rest"
  shows "query_ref query_parts b0 = Inr (Some v)"
  using assms(1)
proof (induction pre arbitrary: query_parts b0)
  case Nil
  then show ?case
    using assms(2,4) query_ref_without_ref [OF assms(3), of "Some v"] by simp
next
  case (Cons x pre)
  show ?case
  proof (cases "prefix ''ref='' x")
    case True
    then obtain a' v' rest' where "py_split CHR ''='' x = a' # v' # rest'"
      using ref_part_has_value by blast
    then show ?thesis using True Cons by simp
  next
    case False
    then show ?thesis using Cons by simp
  qed
qed

lemma last_ref_part:
  assumes "\<exists>part \<in> set query_parts. prefix ''ref='' part"
  shows "\<exists>pre part post. query_parts = pre @ part # post \<and> prefix ''ref='' part
           \<and> (\<forall>x \<in> set post. \<not> prefix ''ref='' x)"
  using assms split_list_last_prop [of query_parts "\<lambda>x. prefix ''ref='' x"] by blast

lemma query_ref_with_ref:
  assumes "\<exists>part \<in> set query_parts. prefix ''ref='' part"
  shows "\<exists>v. query_ref query_parts b0 = Inr (Some v)"
proof -
  obtain pre part post where p: "query_parts = pre @ part # post" "prefix ''ref='' part"
      "\<forall>x \<in> set post. \<not> prefix ''ref='' x"
    using last_ref_part [OF assms] by blast
  obtain a v rest where "py_split CHR ''='' part = a # v # rest"
    using ref_part_has_value [OF p(2)] by blast
  then show ?thesis using query_ref_last [OF p] by blast
qed

lemma ref_part_query_not_empty:
  assumes "part \<in> set (py_split CHR ''&'' q)" "prefix ''ref='' part"
  shows "q \<noteq> []"
  using assms by (auto simp: prefix_def)

lemma refs_before_fetch_with_ref:
  assumes "py_split CHR ''&'' (url_query pu) = pre @ part # post"
    and "prefix ''ref='' part"
    and "\<forall>x \<in> set post. \<not> prefix ''ref='' x"
    and "py_split CHR ''='' part = a # v # rest"
    and "path_refs is_hash (remaining_parts_of pu) = (sp, ty, b0, c0)"
  shows "refs_before_fetch is_hash pu = Inr (sp, ty, Some v, c0)"
proof -
  have "part \<in> set (py_split CHR ''&'' (url_query pu))" using assms(1) by simp
  then have "url_query pu \<noteq> []" using assms(2) by (rule ref_part_query_not_empty)
  then show ?thesis
    using query_ref_last [OF assms(1-4), of b0] assms(5) by (simp add: refs_before_fetch_def)
qed

lemma refs_before_fetch_keeps_path:
  assumes "path_refs is_hash (remaining_parts_of pu) = (sp, ty, b0, c0)"
  shows "\<exists>b1. refs_before_fetch is_hash pu = Inr (sp, ty, b1, c0)"
proof -
  obtain b where "query_ref (py_split CHR ''&'' (url_query pu)) b0 = Inr b"
    using query_ref_total by blast
  then show ?thesis using assms by (simp add: refs_before_fetch_def)
qed

lemma parse_branch_when_set:
  assumes "refs_before_fetch is_hash pu = Inr (sp, ty, b1, c0)" "truthy b1 \<or> truthy c0"
  shows "\<exists>q ws. parse_remote_repo is_hash fetched pu tok = Inr (q, ws)
           \<and> q_subpath q = sp \<and> q_type q = ty \<and> q_commit q = c0 \<and> q_branch q = b1 \<and> ws = []"
  using parse_remote_repo_fields [OF assms(1), of fetched tok] assms(2) by auto

text \<open>
  Claim C7 as stated fails: the fallback to the first remaining segment is the handler
  of RuntimeError only. When the fetch fails otherwise, here with the ValueError of
  decoding the output of \<open>git ls-remote\<close>, the parse of
  \<open>https://github.com/o/r/docs/guide\<close> completes with a warning and the branch stays
  unset, though \<open>docs\<close> is there to take. And for \<open>https://github.com/o/r\<close> a
  RuntimeError of the fetch finds no segment to fall back to: the branch stays unset.
\<close>

theorem fetch_failure_without_fallback:
  "remaining_parts_of (github_url ''/docs/guide'' []) = [''docs'', ''guide'']
   \<and> refs_of (parse_remote_repo is_valid_git_commit_hash (Inl decode_error)
               (github_url ''/docs/guide'' []) None)
       = Inr (None, None, None, ''/'')
   \<and> warnings_of (parse_remote_repo is_valid_git_commit_hash (Inl decode_error)
               (github_url ''/docs/guide'' []) None)
       = [''Failed to determine default branch: '' @ str_of_error decode_error]
   \<and> remaining_parts_of (github_url [] []) = []
   \<and> refs_of (parse_remote_repo is_valid_git_commit_hash (Inl (RuntimeError ''network down''))
               (github_url [] []) None)
       = Inr (None, None, None, ''/'')"
  by code_simp

text \<open>
  Claim C7, amended. The step before the fetch never fails (\<open>refs_before_fetch_total\<close>),
  and whenever the path and the query string leave both branch and commit unset,
  \<open>_parse_remote_repo\<close> returns a ParsedQuery whatever the branch-list fetch does. If
  the fetch raises, at least one warning is emitted. If it raises RuntimeError, the
  warning \<open>Failed to fetch branch list\<close> is among them and the branch is the first
  remaining segment when there is one; with no segment left the branch stays as it
  was. If it raises any other exception, the branch stays as it was and the one warning
  is \<open>Failed to determine default branch\<close>. If the fetch succeeds and no joined prefix
  of the segments is a branch name, the branch is \<open>None\<close>, no warning is emitted, and
  the commit is left as it was, which is \<open>None\<close> as soon as the empty string is not a
  commit hash.
\<close>

theorem branch_list_failure_is_not_fatal:
  assumes before: "refs_before_fetch is_hash pu = Inr (sp, ty, b1, c0)"
    and unresolved: "\<not> truthy b1" "\<not> truthy c0"
  shows "\<exists>q ws. parse_remote_repo is_hash fetched pu tok = Inr (q, ws)
           \<and> (\<forall>ex. fetched = Inl ex \<longrightarrow> ws \<noteq> [])
           \<and> (\<forall>msg. fetched = Inl (RuntimeError msg) \<longrightarrow>
                 ''Warning: Failed to fetch branch list: '' @ msg \<in> set ws
                 \<and> (\<forall>p ps. remaining_parts_of pu = p # ps \<longrightarrow> q_branch q = Some p)
                 \<and> (remaining_parts_of pu = [] \<longrightarrow> q_branch q = b1))
           \<and> (\<forall>ex. fetched = Inl ex \<and> (\<forall>msg. ex \<noteq> RuntimeError msg) \<longrightarrow>
                 q_branch q = b1
                 \<and> ws = [''Failed to determine default branch: '' @ str_of_error ex])
           \<and> (\<forall>branches. fetched = Inr branches
                 \<and> (\<forall>k. 1 \<le> k \<and> k \<le> length (remaining_parts_of pu) \<longrightarrow>
                        py_join ''/'' (take k (remaining_parts_of pu)) \<notin> set branches) \<longrightarrow>
                 q_branch q = None \<and> q_commit q = c0 \<and> ws = []
                 \<and> (\<not> is_hash [] \<longrightarrow> q_commit q = None))"
proof -
  let ?rp = "remaining_parts_of pu"
  obtain q ws where
    p: "parse_remote_repo is_hash fetched pu tok = Inr (q, ws)"
    and c: "q_commit q = c0"
    and b: "(q_branch q, ws) =
              (case configure_branch_and_subpath fetched ?rp of
                 (Inr b, _, w) \<Rightarrow> (b, w)
               | (Inl exc, _, w) \<Rightarrow>
                   (b1, w @ [''Failed to determine default branch: '' @ str_of_error exc]))"
    using parse_remote_repo_fields [OF before, of fetched tok] unresolved by auto
  have any: "ws \<noteq> []" if "fetched = Inl ex" for ex
  proof (cases "\<exists>msg. ex = RuntimeError msg")
    case True
    then obtain msg where "ex = RuntimeError msg" by blast
    then show ?thesis
      using b that configure_fetch_runtime_error [of msg] by (cases ?rp) auto
  next
    case False
    then show ?thesis
      using b that configure_fetch_other_error [of ex ?rp] by auto
  qed
  have rt: "''Warning: Failed to fetch branch list: '' @ msg \<in> set ws
                 \<and> (\<forall>p ps. ?rp = p # ps \<longrightarrow> q_branch q = Some p)
                 \<and> (?rp = [] \<longrightarrow> q_branch q = b1)"
    if "fetched = Inl (RuntimeError msg)" for msg
    using b that configure_fetch_runtime_error [of msg] by (cases ?rp) auto
  have other: "q_branch q = b1
                 \<and> ws = [''Failed to determine default branch: '' @ str_of_error ex]"
    if "fetched = Inl ex" "\<forall>msg. ex \<noteq> RuntimeError msg" for ex
    using b that(1) configure_fetch_other_error [OF that(2), of ?rp] by auto
  have nm: "q_branch q = None \<and> q_commit q = c0 \<and> ws = [] \<and> (\<not> is_hash [] \<longrightarrow> q_commit q = None)"
    if f: "fetched = Inr branches"
      and n: "\<forall>k. 1 \<le> k \<and> k \<le> length ?rp \<longrightarrow> py_join ''/'' (take k ?rp) \<notin> set branches"
    for branches
  proof -
    have "accumulate_branch branches [] ?rp = (None, [])"
      using accumulate_branch_no_match [of ?rp "[]" branches] n by simp
    then have "q_branch q = None \<and> ws = []"
      using b f by (simp add: configure_fetch_ok)
    moreover have "q_commit q = None" if "\<not> is_hash []"
    proof (cases c0)
      case None
      then show ?thesis using c by simp
    next
      case (Some h)
      then have "h = []" using unresolved(2) by simp
      obtain sp' ty' b0 where "path_refs is_hash ?rp = (sp', ty', b0, c0)"
        using before by (auto simp: refs_before_fetch_def split: prod.splits sum.splits)
      then have "is_hash h" using path_refs_commit Some by blast
      then show ?thesis using \<open>h = []\<close> that by simp
    qed
    ultimately show ?thesis using c by blast
  qed
  show ?thesis using p any rt other nm by blast
qed

theorem branch_list_failure_is_not_fatal_witness:
  "refs_before_fetch is_valid_git_commit_hash (github_url ''/docs/guide'' [])
     = Inr (''/'', None, None, None)
   \<and> \<not> truthy None
   \<and> remaining_parts_of (github_url ''/docs/guide'' []) = [''docs'', ''guide'']
   \<and> (\<exists>q ws. parse_remote_repo is_valid_git_commit_hash (Inl (RuntimeError ''network down''))
                  (github_url ''/docs/guide'' []) None = Inr (q, ws)
              \<and> q_branch q = Some ''docs''
              \<and> ''Warning: Failed to fetch branch list: '' @ ''network down'' \<in> set ws)"
proof -
  let ?pu = "github_url ''/docs/guide'' []"
  let ?f = "Inl (RuntimeError ''network down'') :: error + string list"
  have a: "refs_before_fetch is_valid_git_commit_hash ?pu = Inr (''/'', None, None, None)"
    by code_simp
  have r: "remaining_parts_of ?pu = [''docs'', ''guide'']"
    by code_simp
  have n: "\<not> truthy None" by simp
  from branch_list_failure_is_not_fatal [OF a n n, of ?f None]
  obtain q ws where
    p: "parse_remote_repo is_valid_git_commit_hash ?f ?pu None = Inr (q, ws)"
    and rt: "\<forall>msg. ?f = Inl (RuntimeError msg) \<longrightarrow>
                 ''Warning: Failed to fetch branch list: '' @ msg \<in> set ws
                 \<and> (\<forall>p ps. remaining_parts_of ?pu = p # ps \<longrightarrow> q_branch q = Some p)
                 \<and> (remaining_parts_of ?pu = [] \<longrightarrow> q_branch q = None)"
    by (elim exE conjE)
  from rt have "?f = Inl (RuntimeError ''network down'') \<longrightarrow>
                 ''Warning: Failed to fetch branch list: '' @ ''network down'' \<in> set ws
                 \<and> (\<forall>p ps. remaining_parts_of ?pu = p # ps \<longrightarrow> q_branch q = Some p)
                 \<and> (remaining_parts_of ?pu = [] \<longrightarrow> q_branch q = None)"
    by (rule spec)
  then have all: "''Warning: Failed to fetch branch list: '' @ ''network down'' \<in> set ws
                 \<and> (\<forall>p ps. remaining_parts_of ?pu = p # ps \<longrightarrow> q_branch q = Some p)
                 \<and> (remaining_parts_of ?pu = [] \<longrightarrow> q_branch q = None)"
    by (rule mp) (rule refl)
  from all have w: "''Warning: Failed to fetch branch list: '' @ ''network down'' \<in> set ws"
    by (rule conjunct1)
  from all have b: "\<forall>p ps. remaining_parts_of ?pu = p # ps \<longrightarrow> q_branch q = Some p"
    by (elim conjE)
  from b have "remaining_parts_of ?pu = ''docs'' # [''guide''] \<longrightarrow> q_branch q = Some ''docs''"
    by (elim allE)
  then have "q_branch q = Some ''docs''"
    using r by (rule mp)
  with p w have "\<exists>q ws. parse_remote_repo is_valid_git_commit_hash ?f ?pu None = Inr (q, ws)
              \<and> q_branch q = Some ''docs''
              \<and> ''Warning: Failed to fetch branch list: '' @ ''network down'' \<in> set ws"
    by (intro exI conjI)
  with a n r show ?thesis by (intro conjI)
qed





section \<open>Branch and commit together\<close>

lemma hash_not_empty: "\<not> is_valid_git_commit_hash []"
  by (simp add: is_valid_git_commit_hash_def)

text \<open>
  Claim C2 as stated fails: for
  \<open>https://github.com/o/r/blob/0123456789abcdef0123456789abcdef01234567/file.py?ref=main\<close>
  the path pins the commit and the query parameter sets the branch \<open>main\<close>; the
  ParsedQuery carries both.
\<close>

theorem ref_parameter_sets_branch_beside_commit:
  "is_valid_git_commit_hash example_sha
   \<and> remaining_parts_of (github_url (''/blob/'' @ example_sha @ ''/file.py'') ''ref=main'')
       = [''blob'', example_sha, ''file.py'']
   \<and> refs_of (parse_remote_repo is_valid_git_commit_hash (Inr [''main''])
               (github_url (''/blob/'' @ example_sha @ ''/file.py'') ''ref=main'') None)
       = Inr (Some ''blob'', Some ''main'', Some example_sha, ''/file.py'')"
  by code_simp

text \<open>
  Claim C2, amended. With a commit-hash test that rejects the empty string, the
  ParsedQuery returned has a commit exactly when the path pins one (\<open>blob\<close>, \<open>tree\<close> or
  \<open>raw\<close> followed by a commit hash), and then it is that hash, whatever the query
  string. Branch and commit are both set exactly when the path pins a commit and some
  part of the query string starts with \<open>ref=\<close>. So a pinned commit comes with no
  branch unless there is a \<open>ref=\<close> parameter, and a branch, also one from a \<open>ref=\<close>
  parameter, comes with no commit unless the path pins one. The value of the last
  \<open>ref=\<close> part is the branch whenever it is not empty or a commit is pinned.
\<close>

theorem branch_and_commit_both_set_iff:
  assumes ne: "\<not> is_hash []"
  shows "\<exists>q ws. parse_remote_repo is_hash fetched pu tok = Inr (q, ws)
           \<and> (q_commit q \<noteq> None \<longleftrightarrow>
                (\<exists>p0 h rest. remaining_parts_of pu = p0 # h # rest
                    \<and> p0 \<in> {''blob'', ''tree'', ''raw''} \<and> is_hash h))
           \<and> (\<forall>p0 h rest. remaining_parts_of pu = p0 # h # rest
                   \<and> p0 \<in> {''blob'', ''tree'', ''raw''} \<and> is_hash h \<longrightarrow>
                 q_commit q = Some h)
           \<and> (q_branch q \<noteq> None \<and> q_commit q \<noteq> None \<longleftrightarrow>
                (\<exists>p0 h rest. remaining_parts_of pu = p0 # h # rest
                    \<and> p0 \<in> {''blob'', ''tree'', ''raw''} \<and> is_hash h)
                \<and> (\<exists>part \<in> set (py_split CHR ''&'' (url_query pu)). prefix ''ref='' part))
           \<and> (\<forall>pre part post a v rest.
                 py_split CHR ''&'' (url_query pu) = pre @ part # post
                 \<and> prefix ''ref='' part \<and> (\<forall>x \<in> set post. \<not> prefix ''ref='' x)
                 \<and> py_split CHR ''='' part = a # v # rest
                 \<and> (v \<noteq> [] \<or> q_commit q \<noteq> None) \<longrightarrow>
                 q_branch q = Some v)"
proof -
  let ?rp = "remaining_parts_of pu"
  let ?pinned = "\<exists>p0 h rest. ?rp = p0 # h # rest \<and> p0 \<in> {''blob'', ''tree'', ''raw''} \<and> is_hash h"
  let ?hasref = "\<exists>part \<in> set (py_split CHR ''&'' (url_query pu)). prefix ''ref='' part"
  obtain sp ty b0 c0 where pr: "path_refs is_hash ?rp = (sp, ty, b0, c0)"
    by (metis prod_cases4)
  obtain b1 where before: "refs_before_fetch is_hash pu = Inr (sp, ty, b1, c0)"
    using refs_before_fetch_keeps_path [OF pr] by blast
  from parse_remote_repo_fields [OF before, of fetched tok]
  obtain q ws where
    p: "parse_remote_repo is_hash fetched pu tok = Inr (q, ws)"
    and "q_subpath q = sp" "q_type q = ty"
    and c: "q_commit q = c0"
    and raw: "(q_branch q, ws) =
               (if \<not> truthy b1 \<and> \<not> truthy c0 then
                  (case configure_branch_and_subpath fetched (remaining_parts_of pu) of
                     (Inr b, _, w) \<Rightarrow> (b, w)
                   | (Inl exc, _, w) \<Rightarrow>
                       (b1, w @ [''Failed to determine default branch: '' @ str_of_error exc]))
                else (b1, []))"
    by (elim exE conjE)
  have b: "q_branch q = b1" if "truthy b1 \<or> truthy c0"
    using raw that by auto
  have pin: "c0 = Some h \<and> b0 = None \<and> truthy c0"
    if "?rp = p0 # h # rest" "p0 \<in> {''blob'', ''tree'', ''raw''}" "is_hash h" for p0 h rest
  proof -
    have "\<exists>sp' ty'. path_refs is_hash ?rp = (sp', ty', None, Some h)"
      using that by (rule path_refs_pinned)
    moreover have "h \<noteq> []" using that(3) ne by auto
    ultimately show ?thesis using pr by auto
  qed
  have unpin: "?pinned" if "c0 = Some h" for h
    using path_refs_commit [of is_hash ?rp sp ty b0 h] pr that by auto
  have i: "q_commit q \<noteq> None \<longleftrightarrow> ?pinned"
    using c pin unpin by (cases c0) auto
  have ii: "q_commit q = Some h"
    if "?rp = p0 # h # rest \<and> p0 \<in> {''blob'', ''tree'', ''raw''} \<and> is_hash h" for p0 h rest
    using pin [of p0 h rest] that c by simp
  have withref: "\<exists>v. b1 = Some v" if hr: ?hasref
  proof -
    obtain v where "query_ref (py_split CHR ''&'' (url_query pu)) b0 = Inr (Some v)"
      using query_ref_with_ref [OF hr] by blast
    moreover have "url_query pu \<noteq> []"
      using hr ref_part_query_not_empty by blast
    ultimately show ?thesis using before pr by (auto simp: refs_before_fetch_def)
  qed
  have noref: "b1 = b0" if "\<not> ?hasref"
  proof -
    have "\<forall>part \<in> set (py_split CHR ''&'' (url_query pu)). \<not> prefix ''ref='' part"
      using that by blast
    from refs_before_fetch_without_ref [OF this pr] before show ?thesis by simp
  qed
  have iii: "q_branch q \<noteq> None \<and> q_commit q \<noteq> None \<longleftrightarrow> ?pinned \<and> ?hasref"
  proof
    assume both: "q_branch q \<noteq> None \<and> q_commit q \<noteq> None"
    then have pd: ?pinned using i by simp
    then obtain p0 h rest where "?rp = p0 # h # rest" "p0 \<in> {''blob'', ''tree'', ''raw''}" "is_hash h"
      by blast
    then have f: "b0 = None" "truthy c0" using pin by blast+
    have ?hasref
    proof (rule ccontr)
      assume "\<not> ?hasref"
      then have "b1 = None" using noref f(1) by simp
      then have "q_branch q = None" using b f(2) by simp
      then show False using both by simp
    qed
    then show "?pinned \<and> ?hasref" using pd by simp
  next
    assume r: "?pinned \<and> ?hasref"
    then obtain p0 h rest where "?rp = p0 # h # rest" "p0 \<in> {''blob'', ''tree'', ''raw''}" "is_hash h"
      by blast
    then have f: "c0 = Some h" "truthy c0" using pin by blast+
    obtain v where "b1 = Some v" using withref r by blast
    then show "q_branch q \<noteq> None \<and> q_commit q \<noteq> None"
      using b f c by simp
  qed
  have iv: "q_branch q = Some v"
    if "py_split CHR ''&'' (url_query pu) = pre @ part # post
          \<and> prefix ''ref='' part \<and> (\<forall>x \<in> set post. \<not> prefix ''ref='' x)
          \<and> py_split CHR ''='' part = a # v # rest
          \<and> (v \<noteq> [] \<or> q_commit q \<noteq> None)"
    for pre part post a v rest
  proof -
    have "refs_before_fetch is_hash pu = Inr (sp, ty, Some v, c0)"
      using refs_before_fetch_with_ref [of pu pre part post a v rest is_hash sp ty b0 c0] that pr
      by simp
    then have b1: "b1 = Some v" using before by simp
    have "truthy b1 \<or> truthy c0"
    proof (cases "v \<noteq> []")
      case True
      then show ?thesis using b1 by simp
    next
      case False
      then have "q_commit q \<noteq> None" using that by simp
      then obtain h where "c0 = Some h" using c by (cases c0) auto
      then show ?thesis using unpin [of h] pin by blast
    qed
    then show ?thesis using b b1 by simp
  qed
  show ?thesis
  proof (intro exI conjI)
    show "parse_remote_repo is_hash fetched pu tok = Inr (q, ws)" by (rule p)
    show "q_commit q \<noteq> None \<longleftrightarrow> ?pinned" by (rule i)
    show "\<forall>p0 h rest. ?rp = p0 # h # rest \<and> p0 \<in> {''blob'', ''tree'', ''raw''} \<and> is_hash h \<longrightarrow>
                 q_commit q = Some h"
      using ii by blast
    show "q_branch q \<noteq> None \<and> q_commit q \<noteq> None \<longleftrightarrow> ?pinned \<and> ?hasref" by (rule iii)
    show "\<forall>pre part post a v rest.
                 py_split CHR ''&'' (url_query pu) = pre @ part # post
                 \<and> prefix ''ref='' part \<and> (\<forall>x \<in> set post. \<not> prefix ''ref='' x)
                 \<and> py_split CHR ''='' part = a # v # rest
                 \<and> (v \<noteq> [] \<or> q_commit q \<noteq> None) \<longrightarrow>
                 q_branch q = Some v"
      using iv by blast
  qed
qed

theorem branch_and_commit_both_set_iff_witness:
  "\<not> is_valid_git_commit_hash []
   \<and> remaining_parts_of (github_url (''/blob/'' @ example_sha @ ''/file.py'') [])
       = ''blob'' # example_sha # [''file.py'']
   \<and> is_valid_git_commit_hash example_sha
   \<and> py_split CHR ''&'' (url_query (github_url (''/blob/'' @ example_sha @ ''/file.py'') []))
       = [[]]
   \<and> \<not> prefix ''ref='' []
   \<and> (\<exists>q ws. parse_remote_repo is_valid_git_commit_hash (Inr [''main''])
                 (github_url (''/blob/'' @ example_sha @ ''/file.py'') []) None = Inr (q, ws)
              \<and> q_commit q = Some example_sha \<and> q_branch q = None)"
proof -
  let ?pu = "github_url (''/blob/'' @ example_sha @ ''/file.py'') []"
  let ?rp = "remaining_parts_of ?pu"
  have s: "py_split CHR ''&'' (url_query ?pu) = [[]]"
    by code_simp
  have r: "?rp = ''blob'' # example_sha # [''file.py'']"
    by code_simp
  have v: "is_valid_git_commit_hash example_sha"
    by code_simp
  have pf: "\<not> prefix ''ref='' []"
    by code_simp
  have nh: "\<not> (\<exists>part \<in> set (py_split CHR ''&'' (url_query ?pu)). prefix ''ref='' part)"
    unfolding s using pf by simp
  have m: "''blob'' \<in> {''blob'', ''tree'', ''raw''}" by simp
  from branch_and_commit_both_set_iff
         [where is_hash = is_valid_git_commit_hash and pu = ?pu
            and fetched = "Inr [''main'']" and tok = None, OF hash_not_empty]
  obtain q ws where
    p: "parse_remote_repo is_valid_git_commit_hash (Inr [''main'']) ?pu None = Inr (q, ws)"
    and "q_commit q \<noteq> None \<longleftrightarrow>
           (\<exists>p0 h rest. ?rp = p0 # h # rest \<and> p0 \<in> {''blob'', ''tree'', ''raw''}
               \<and> is_valid_git_commit_hash h)"
    and pin: "\<forall>p0 h rest. ?rp = p0 # h # rest \<and> p0 \<in> {''blob'', ''tree'', ''raw''}
                 \<and> is_valid_git_commit_hash h \<longrightarrow> q_commit q = Some h"
    and both: "q_branch q \<noteq> None \<and> q_commit q \<noteq> None \<longleftrightarrow>
           (\<exists>p0 h rest. ?rp = p0 # h # rest \<and> p0 \<in> {''blob'', ''tree'', ''raw''}
               \<and> is_valid_git_commit_hash h)
           \<and> (\<exists>part \<in> set (py_split CHR ''&'' (url_query ?pu)). prefix ''ref='' part)"
    by (elim exE conjE)
  from pin have "?rp = ''blob'' # example_sha # [''file.py'']
                   \<and> ''blob'' \<in> {''blob'', ''tree'', ''raw''}
                   \<and> is_valid_git_commit_hash example_sha \<longrightarrow> q_commit q = Some example_sha"
    by (elim allE)
  then have c: "q_commit q = Some example_sha"
    using r m v by (elim impE) (intro conjI)
  from both nh have "\<not> (q_branch q \<noteq> None \<and> q_commit q \<noteq> None)"
    by (elim iffE) (rule notI, drule (1) mp, elim conjE, erule (1) notE)
  with c have b: "q_branch q = None"
    by simp
  from p c b have "\<exists>q ws. parse_remote_repo is_valid_git_commit_hash (Inr [''main'']) ?pu None
                     = Inr (q, ws)
              \<and> q_commit q = Some example_sha \<and> q_branch q = None"
    by (intro exI conjI)
  with hash_not_empty r v s pf show ?thesis by (intro conjI)
qed


section \<open>The segment after blob or tree\<close>

text \<open>
  Claim C8 as stated fails, with \<open>_is_valid_git_commit_hash\<close> as the spec describes it.
  A \<open>ref=\<close> parameter sets the branch although the second segment is a commit hash of
  40 hexadecimal characters; and an empty second segment, which is not a commit hash,
  is not kept as the branch name: being empty it counts as unset, and the branch is
  then whatever disambiguation finds, here nothing.
\<close>

theorem second_segment_overridden_or_dropped:
  "is_valid_git_commit_hash example_sha
   \<and> remaining_parts_of (github_url (''/tree/'' @ example_sha @ ''/src'') ''ref=dev'')
       = [''tree'', example_sha, ''src'']
   \<and> refs_of (parse_remote_repo is_valid_git_commit_hash (Inr [''main''])
               (github_url (''/tree/'' @ example_sha @ ''/src'') ''ref=dev'') None)
       = Inr (Some ''tree'', Some ''dev'', Some example_sha, ''/src/'')
   \<and> remaining_parts_of (github_url ''/tree//docs'' []) = [''tree'', [], ''docs'']
   \<and> refs_of (parse_remote_repo is_valid_git_commit_hash (Inr [''main''])
               (github_url ''/tree//docs'' []) None)
       = Inr (Some ''tree'', None, None, ''/docs/'')"
  by code_simp

text \<open>
  Claim C8, amended. For a URL whose first remaining segment is \<open>blob\<close> or \<open>tree\<close> and
  that has a second segment, the type is the first segment, whatever the query string.
  If the second segment is a hexadecimal string of 7 to 40 characters, the commit is
  that string, whatever the query string, and the branch is unset unless a part of the
  query string starts with \<open>ref=\<close>; the value of the last such part is then the
  branch. If the second segment is not such a string, the commit is unset, and the
  segment is the branch when it is not empty and no part of the query string starts
  with \<open>ref=\<close>; a non-empty value of the last \<open>ref=\<close> part is the branch instead.
\<close>

theorem blob_tree_second_segment:
  assumes rp: "remaining_parts_of pu = p0 # p1 # rest"
    and ty: "p0 = ''blob'' \<or> p0 = ''tree''"
  shows "\<exists>q ws. parse_remote_repo is_valid_git_commit_hash fetched pu tok = Inr (q, ws)
           \<and> q_type q = Some p0
           \<and> (is_valid_git_commit_hash p1 \<longrightarrow>
                 7 \<le> length p1 \<and> length p1 \<le> 40 \<and> list_all is_hex_char p1
                 \<and> q_commit q = Some p1)
           \<and> (\<not> is_valid_git_commit_hash p1 \<longrightarrow> q_commit q = None)
           \<and> ((\<forall>part \<in> set (py_split CHR ''&'' (url_query pu)). \<not> prefix ''ref='' part) \<longrightarrow>
                 (is_valid_git_commit_hash p1 \<longrightarrow> q_branch q = None)
                 \<and> (\<not> is_valid_git_commit_hash p1 \<and> p1 \<noteq> [] \<longrightarrow> q_branch q = Some p1))
           \<and> (\<forall>pre part post a v rest'.
                 py_split CHR ''&'' (url_query pu) = pre @ part # post
                 \<and> prefix ''ref='' part \<and> (\<forall>x \<in> set post. \<not> prefix ''ref='' x)
                 \<and> py_split CHR ''='' part = a # v # rest'
                 \<and> (v \<noteq> [] \<or> is_valid_git_commit_hash p1) \<longrightarrow>
                 q_branch q = Some v)"
proof -
  let ?h = is_valid_git_commit_hash
  let ?rp = "remaining_parts_of pu"
  have m: "p0 \<in> {''blob'', ''tree'', ''raw''}" and m2: "p0 \<in> {''blob'', ''tree''}"
    using ty by auto
  obtain sp b0 c0 where pr: "path_refs ?h ?rp = (sp, Some p0, b0, c0)"
    using path_refs_type [OF rp m2, of ?h] by blast
  obtain b1 where before: "refs_before_fetch ?h pu = Inr (sp, Some p0, b1, c0)"
    using refs_before_fetch_keeps_path [OF pr] by blast
  from parse_remote_repo_fields [OF before, of fetched tok]
  obtain q ws where
    p: "parse_remote_repo ?h fetched pu tok = Inr (q, ws)"
    and "q_subpath q = sp"
    and t: "q_type q = Some p0"
    and c: "q_commit q = c0"
    and raw: "(q_branch q, ws) =
               (if \<not> truthy b1 \<and> \<not> truthy c0 then
                  (case configure_branch_and_subpath fetched (remaining_parts_of pu) of
                     (Inr b, _, w) \<Rightarrow> (b, w)
                   | (Inl exc, _, w) \<Rightarrow>
                       (b1, w @ [''Failed to determine default branch: '' @ str_of_error exc]))
                else (b1, []))"
    by (elim exE conjE)
  have b: "q_branch q = b1" if "truthy b1 \<or> truthy c0"
    using raw that by auto
  have hashed: "b0 = None \<and> c0 = Some p1 \<and> truthy c0" if v: "?h p1"
  proof -
    have "\<exists>sp' ty'. path_refs ?h ?rp = (sp', ty', None, Some p1)"
      using rp m v by (rule path_refs_pinned)
    moreover have "p1 \<noteq> []" using v by (auto simp: is_valid_git_commit_hash_def)
    ultimately show ?thesis using pr by auto
  qed
  have named: "b0 = Some p1 \<and> c0 = None" if n: "\<not> ?h p1"
  proof -
    have "\<exists>sp' ty'. path_refs ?h ?rp = (sp', ty', Some p1, None)"
      using rp m n by (rule path_refs_branch)
    then show ?thesis using pr by auto
  qed
  have i: "7 \<le> length p1 \<and> length p1 \<le> 40 \<and> list_all is_hex_char p1 \<and> q_commit q = Some p1"
    if "?h p1"
    using hashed [OF that] c that by (simp add: is_valid_git_commit_hash_def)
  have ii: "q_commit q = None" if "\<not> ?h p1"
    using named [OF that] c by simp
  have iii: "(?h p1 \<longrightarrow> q_branch q = None) \<and> (\<not> ?h p1 \<and> p1 \<noteq> [] \<longrightarrow> q_branch q = Some p1)"
    if nr: "\<forall>part \<in> set (py_split CHR ''&'' (url_query pu)). \<not> prefix ''ref='' part"
  proof -
    have "refs_before_fetch ?h pu = Inr (sp, Some p0, b0, c0)"
      using refs_before_fetch_without_ref [OF nr pr] .
    then have e: "b1 = b0" using before by simp
    show ?thesis using hashed named b e by auto
  qed
  have iv: "q_branch q = Some v"
    if "py_split CHR ''&'' (url_query pu) = pre @ part # post
          \<and> prefix ''ref='' part \<and> (\<forall>x \<in> set post. \<not> prefix ''ref='' x)
          \<and> py_split CHR ''='' part = a # v # rest'
          \<and> (v \<noteq> [] \<or> ?h p1)"
    for pre part post a v rest'
  proof -
    have "refs_before_fetch ?h pu = Inr (sp, Some p0, Some v, c0)"
      using refs_before_fetch_with_ref [of pu pre part post a v rest' ?h sp "Some p0" b0 c0]
            that pr
      by simp
    then have b1: "b1 = Some v" using before by simp
    have "truthy b1 \<or> truthy c0"
      using that b1 hashed by auto
    then show ?thesis using b b1 by simp
  qed
  show ?thesis
  proof (intro exI conjI)
    show "parse_remote_repo ?h fetched pu tok = Inr (q, ws)" by (rule p)
    show "q_type q = Some p0" by (rule t)
    show "?h p1 \<longrightarrow> 7 \<le> length p1 \<and> length p1 \<le> 40 \<and> list_all is_hex_char p1
            \<and> q_commit q = Some p1"
      using i by blast
    show "\<not> ?h p1 \<longrightarrow> q_commit q = None" using ii by blast
    show "(\<forall>part \<in> set (py_split CHR ''&'' (url_query pu)). \<not> prefix ''ref='' part) \<longrightarrow>
                 (?h p1 \<longrightarrow> q_branch q = None)
                 \<and> (\<not> ?h p1 \<and> p1 \<noteq> [] \<longrightarrow> q_branch q = Some p1)"
      using iii by blast
    show "\<forall>pre part post a v rest'.
                 py_split CHR ''&'' (url_query pu) = pre @ part # post
                 \<and> prefix ''ref='' part \<and> (\<forall>x \<in> set post. \<not> prefix ''ref='' x)
                 \<and> py_split CHR ''='' part = a # v # rest'
                 \<and> (v \<noteq> [] \<or> ?h p1) \<longrightarrow>
                 q_branch q = Some v"
      using iv by blast
  qed
qed

theorem blob_tree_second_segment_witness:
  "remaining_parts_of (github_url ''/tree/dev/src'' []) = ''tree'' # ''dev'' # [''src'']
   \<and> py_split CHR ''&'' (url_query (github_url ''/tree/dev/src'' [])) = [[]]
   \<and> \<not> prefix ''ref='' []
   \<and> \<not> is_valid_git_commit_hash ''dev''
   \<and> (\<exists>q ws. parse_remote_repo is_valid_git_commit_hash (Inr [''main''])
                 (github_url ''/tree/dev/src'' []) None = Inr (q, ws)
              \<and> q_type q = Some ''tree'' \<and> q_branch q = Some ''dev'' \<and> q_commit q = None)"
proof -
  let ?pu = "github_url ''/tree/dev/src'' []"
  have s: "py_split CHR ''&'' (url_query ?pu) = [[]]"
    by code_simp
  have r: "remaining_parts_of ?pu = ''tree'' # ''dev'' # [''src'']"
    by code_simp
  have v: "\<not> is_valid_git_commit_hash ''dev''"
    by code_simp
  have pf: "\<not> prefix ''ref='' []"
    by code_simp
  have noref: "\<forall>part \<in> set (py_split CHR ''&'' (url_query ?pu)). \<not> prefix ''ref='' part"
    unfolding s using pf by simp
  have ty: "''tree'' = ''blob'' \<or> ''tree'' = ''tree''" by simp
  have ne: "''dev'' \<noteq> []" by simp
  from blob_tree_second_segment
         [where pu = ?pu and fetched = "Inr [''main'']" and tok = None, OF r ty]
  obtain q ws where
    p: "parse_remote_repo is_valid_git_commit_hash (Inr [''main'']) ?pu None = Inr (q, ws)"
    and t: "q_type q = Some ''tree''"
    and "is_valid_git_commit_hash ''dev'' \<longrightarrow>
           7 \<le> length ''dev'' \<and> length ''dev'' \<le> 40 \<and> list_all is_hex_char ''dev''
           \<and> q_commit q = Some ''dev''"
    and nc: "\<not> is_valid_git_commit_hash ''dev'' \<longrightarrow> q_commit q = None"
    and nr: "(\<forall>part \<in> set (py_split CHR ''&'' (url_query ?pu)). \<not> prefix ''ref='' part) \<longrightarrow>
                 (is_valid_git_commit_hash ''dev'' \<longrightarrow> q_branch q = None)
                 \<and> (\<not> is_valid_git_commit_hash ''dev'' \<and> ''dev'' \<noteq> [] \<longrightarrow>
                      q_branch q = Some ''dev'')"
    by (elim exE conjE)
  from nc v have c: "q_commit q = None" by (rule mp)
  from nr noref have "(is_valid_git_commit_hash ''dev'' \<longrightarrow> q_branch q = None)
                 \<and> (\<not> is_valid_git_commit_hash ''dev'' \<and> ''dev'' \<noteq> [] \<longrightarrow>
                      q_branch q = Some ''dev'')"
    by (rule mp)
  then have "\<not> is_valid_git_commit_hash ''dev'' \<and> ''dev'' \<noteq> [] \<longrightarrow> q_branch q = Some ''dev''"
    by (rule conjunct2)
  then have b: "q_branch q = Some ''dev''"
    using v ne by (elim impE) (intro conjI)
  from p t b c have "\<exists>q ws. parse_remote_repo is_valid_git_commit_hash (Inr [''main'']) ?pu None
                    = Inr (q, ws)
              \<and> q_type q = Some ''tree'' \<and> q_branch q = Some ''dev'' \<and> q_commit q = None"
    by (intro exI conjI)
  with r s pf v show ?thesis by (intro conjI)
qed

end
